theory Spec2Isabelle
  imports Main "HOL-Library.AList"
begin

section \<open>Go library functions used by the runtime\<close>

text \<open>
  Go strings are byte sequences; they are modelled as \<^typ>\<open>string\<close>. Go's \<open>int\<close> and
  \<open>int64\<close> are modelled as \<^typ>\<open>int\<close>, with the 64-bit wrap-around written out where
  the code multiplies.
\<close>

subsection \<open>Package strings\<close>

text \<open>
  The lower case of an ASCII letter; every other byte is kept. \<open>strings.ToLower\<close> itself
  also maps the letters beyond ASCII, by the case tables of Go's \<open>unicode\<close> package
  (the Kelvin sign, three bytes in UTF-8, becomes \<open>k\<close>). Those tables are not written
  out here: \<open>strings.ToLower\<close> is the field \<open>ToLower\<close> of the environment below, and
  what a property needs of it is stated there as a hypothesis.
\<close>

definition lower :: "char \<Rightarrow> char" where
  "lower c =
     (case map_of (zip ''ABCDEFGHIJKLMNOPQRSTUVWXYZ'' ''abcdefghijklmnopqrstuvwxyz'') c of
        Some l \<Rightarrow> l
      | None \<Rightarrow> c)"


definition HasSuffix :: "string \<Rightarrow> string \<Rightarrow> bool" where
  "HasSuffix s suffix =
     (length suffix \<le> length s \<and> drop (length s - length suffix) s = suffix)"

definition TrimSuffix :: "string \<Rightarrow> string \<Rightarrow> string" where
  "TrimSuffix s suffix =
     (if HasSuffix s suffix then take (length s - length suffix) s else s)"

text \<open>\<open>strings.Contains\<close>: some suffix of \<open>s\<close> starts with \<open>substr\<close>.\<close>

fun Contains :: "string \<Rightarrow> string \<Rightarrow> bool" where
  "Contains [] substr = (substr = [])"
| "Contains (c # cs) substr =
     (take (length substr) (c # cs) = substr \<or> Contains cs substr)"

text \<open>\<open>strings.Join\<close>.\<close>

fun strings_Join :: "string list \<Rightarrow> string \<Rightarrow> string" where
  "strings_Join [] sep = []"
| "strings_Join [e] sep = e"
| "strings_Join (e # es) sep = e @ sep @ strings_Join es sep"

text \<open>
  \<open>strings.Split\<close> with a separator of one byte, the only way the runtime calls it. The
  result always has at least one element: splitting the empty string gives one empty
  string.
\<close>

fun Split :: "string \<Rightarrow> char \<Rightarrow> string list" where
  "Split [] sep = [[]]"
| "Split (c # cs) sep =
     (if c = sep then [] # Split cs sep
      else (case Split cs sep of
              [] \<Rightarrow> [[c]]
            | p # ps \<Rightarrow> (c # p) # ps))"

subsection \<open>Package strconv\<close>

definition digit_of :: "char \<Rightarrow> int option" where
  "digit_of c = map_of (zip ''0123456789'' [0, 1, 2, 3, 4, 5, 6, 7, 8, 9]) c"

definition digit_char :: "int \<Rightarrow> char" where
  "digit_char d = ''0123456789'' ! nat d"

text \<open>Decimal digits of a number that is not negative, most significant first.\<close>

function digits :: "int \<Rightarrow> string" where
  "digits n =
     (if n < 10 then [digit_char n]
      else digits (n div 10) @ [digit_char (n mod 10)])"
  by pat_completeness auto
termination
  by (relation "measure nat") auto

declare digits.simps [simp del]

text \<open>\<open>strconv.Itoa\<close> and \<open>strconv.FormatInt(_, 10)\<close>.\<close>

definition Itoa :: "int \<Rightarrow> string" where
  "Itoa i = (if i < 0 then CHR ''-'' # digits (- i) else digits i)"

datatype NumError = ErrSyntax | ErrRange

definition maxUint64 :: int where
  "maxUint64 = 2 ^ 64 - 1"

text \<open>
  \<open>strconv.ParseUint(s, 10, 64)\<close>: the loop over the bytes. A byte that is no decimal
  digit is a syntax error; a value that leaves 64 bits is a range error.
\<close>

fun ParseUint_loop :: "int \<Rightarrow> string \<Rightarrow> NumError + int" where
  "ParseUint_loop n [] = Inr n"
| "ParseUint_loop n (c # cs) =
     (case digit_of c of
        None \<Rightarrow> Inl ErrSyntax
      | Some d \<Rightarrow>
          if n \<ge> maxUint64 div 10 + 1 then Inl ErrRange
          else if n * 10 + d > maxUint64 then Inl ErrRange
          else ParseUint_loop (n * 10 + d) cs)"

definition ParseUint :: "string \<Rightarrow> NumError + int" where
  "ParseUint s = (if s = [] then Inl ErrSyntax else ParseUint_loop 0 s)"

text \<open>\<open>strconv.ParseInt(s, 10, 64)\<close>: an optional sign, then \<open>ParseUint\<close>.\<close>

definition ParseInt :: "string \<Rightarrow> NumError + int" where
  "ParseInt s =
     (case s of
        [] \<Rightarrow> Inl ErrSyntax
      | c # cs \<Rightarrow>
          (let neg = (c = CHR ''-'');
               body = (if c = CHR ''+'' \<or> c = CHR ''-'' then cs else s)
           in case ParseUint body of
                Inl e \<Rightarrow> Inl e
              | Inr un \<Rightarrow>
                  if \<not> neg \<and> un \<ge> 2 ^ 63 then Inl ErrRange
                  else if neg \<and> un > 2 ^ 63 then Inl ErrRange
                  else Inr (if neg then - un else un)))"

subsection \<open>Integer arithmetic\<close>

text \<open>Go's \<open>%\<close> truncates towards zero: the result has the sign of the dividend.\<close>

definition go_rem :: "int \<Rightarrow> int \<Rightarrow> int" where
  "go_rem a b = sgn a * (\<bar>a\<bar> mod \<bar>b\<bar>)"

text \<open>A product of two \<open>int64\<close> values wraps around in two's complement.\<close>

definition wrap64 :: "int \<Rightarrow> int" where
  "wrap64 x = (x + 2 ^ 63) mod 2 ^ 64 - 2 ^ 63"

subsection \<open>Package path/filepath (Unix)\<close>

text \<open>
  One step of \<open>filepath.Clean\<close> on the stack of components kept so far (last one first):
  empty and \<open>.\<close> components are dropped, \<open>..\<close> removes the component before it, is
  dropped at the root and is kept at the start of a relative path.
\<close>

definition clean_step :: "bool \<Rightarrow> string list \<Rightarrow> string \<Rightarrow> string list" where
  "clean_step rooted st el =
     (if el = [] \<or> el = ''.'' then st
      else if el = ''..'' then
        (case st of
           [] \<Rightarrow> if rooted then [] else [''..'']
         | prev # rest \<Rightarrow> if prev = ''..'' then ''..'' # st else rest)
      else el # st)"

definition Clean :: "string \<Rightarrow> string" where
  "Clean path =
     (if path = [] then ''.''
      else
        (let rooted = (hd path = CHR ''/'');
             els = rev (foldl (clean_step rooted) [] (Split path (CHR ''/'')));
             out = (if rooted then ''/'' else []) @ strings_Join els ''/''
         in if out = [] then ''.'' else out))"

text \<open>\<open>filepath.Join\<close>: leading empty elements are skipped, the rest is joined and cleaned.\<close>

definition filepath_Join :: "string list \<Rightarrow> string" where
  "filepath_Join elem =
     (case dropWhile (\<lambda>e. e = []) elem of
        [] \<Rightarrow> []
      | es \<Rightarrow> Clean (strings_Join es ''/''))"

section \<open>Errors, log lines and the operating system\<close>

text \<open>
  A Go \<open>error\<close> is a value. \<open>Sys\<close> is an error reported by the operating system or a
  library call, with its message. \<open>Wrap ctx e\<close> is \<open>fmt.Errorf("ctx: %v", e)\<close> for the
  wrappers inside the resource, network and init code. The errors the orchestrator itself
  creates have constructors of their own. \<open>Panic\<close> is a run-time panic (a slice
  expression out of range), which is no returned error but ends the program.
\<close>

datatype error =
    Sys string
  | Wrap string error
  | DuplicateName string
  | RootfsPreparationError error
  | ProcessStartError error
  | NotFound string
  | ProcessLookupError error
  | KillError error
  | StopError error
  | WaitError error
  | InvalidMemorySpec string
  | MemoryLimitError error
  | CpuSetError error
  | CpuShareError error
  | BridgeError error
  | VethPairError error
  | NetnsError error
  | BridgeConnectError error
  | NATError error
  | UnsupportedMode string
  | MissingConfiguration
  | InvalidCommand
  | Panic

text \<open>The lines the runtime prints on standard output, with the values they show.\<close>

datatype log_line =
    LogPreparingRootfs string string
  | LogProcessStarted int
  | WarnResourceLimits error
  | WarnNetwork error
  | WarnSigtermFailed error
  | WarnCleanupFailed error
  | LogExited string int
  | LogBridgeExists string
  | LogCreatingBridge string
  | LogHostMode
  | LogNoNetwork
  | WarnNAT error
  | LogInit string string
  | LogExec string

datatype clone_flag = CLONE_NEWUTS | CLONE_NEWPID | CLONE_NEWNS | CLONE_NEWNET

text \<open>
  Every interaction with the world outside the process is an event. The trace is the list
  of the events so far, oldest first.
\<close>

datatype event =
    Print log_line
  | MkdirAll string int
  | WriteFile string string int
  | RemoveAll string
  | Start string "string list" "string list" "clone_flag list" bool
  | FindProcess int
  | SignalTerm int
  | Kill int
  | Wait int
  | Output "string list"
  | InterfaceByName string
  | Sethostname string
  | Mount string string string int string
  | Mknod string int int
  | Chroot string
  | Chdir string
  | LookPath string
  | Exec string "string list"

type_synonym trace = "event list"

text \<open>
  The operating system answers each call. Its answer may depend on everything that
  happened before, so each oracle takes the trace so far. An error is answered as its
  message. \<open>sys_err\<close> answers the calls that return only an error (\<open>None\<close> is Go's
  \<open>nil\<close>); \<open>start_pid\<close> answers \<open>cmd.Start\<close> with the process id of the child,
  \<open>wait_code\<close> answers \<open>process.Wait\<close> with the exit code of the process,
  \<open>look_path\<close> answers \<open>exec.LookPath\<close>. \<open>uuid_New\<close> is the random 128-bit number
  of \<open>uuid.New\<close>, \<open>time_Now\<close> the clock, \<open>Getpid\<close> the process id of the runtime
  itself and \<open>environ\<close> its environment. \<open>ToLower\<close> is \<open>strings.ToLower\<close> of Go's
  library, a function of the string alone.
\<close>

record os =
  sys_err :: "trace \<Rightarrow> event \<Rightarrow> string option"
  start_pid :: "trace \<Rightarrow> event \<Rightarrow> string + int"
  wait_code :: "trace \<Rightarrow> int \<Rightarrow> string + int"
  look_path :: "trace \<Rightarrow> string \<Rightarrow> string + string"
  uuid_New :: "trace \<Rightarrow> int"
  time_Now :: "trace \<Rightarrow> int"
  Getpid :: int
  environ :: "(string \<times> string) list"
  ToLower :: "string \<Rightarrow> string"

text \<open>A call that returns only an error: the event is recorded, the oracle answers.\<close>

definition call :: "os \<Rightarrow> event \<Rightarrow> trace \<Rightarrow> error option \<times> trace" where
  "call os ev tr = (map_option Sys (sys_err os tr ev), tr @ [ev])"

definition print :: "log_line \<Rightarrow> trace \<Rightarrow> trace" where
  "print l tr = tr @ [Print l]"

definition say :: "log_line \<Rightarrow> trace \<Rightarrow> error option \<times> trace" where
  "say l tr = (None, print l tr)"

text \<open>
  The statements \<open>if err := f(); err != nil { return err }\<close> in a row: each step runs on
  the trace the one before left, and the first error ends the function.
\<close>

fun steps :: "(trace \<Rightarrow> error option \<times> trace) list \<Rightarrow> trace \<Rightarrow> error option \<times> trace" where
  "steps [] tr = (None, tr)"
| "steps (f # fs) tr =
     (case f tr of
        (Some err, tr') \<Rightarrow> (Some err, tr')
      | (None, tr') \<Rightarrow> steps fs tr')"

text \<open>\<open>return fmt.Errorf("...: %v", err)\<close>: the error of a step, wrapped.\<close>

definition wrap ::
  "(error \<Rightarrow> error) \<Rightarrow> (trace \<Rightarrow> error option \<times> trace) \<Rightarrow> trace \<Rightarrow> error option \<times> trace" where
  "wrap ctx f tr = (case f tr of (r, tr') \<Rightarrow> (map_option ctx r, tr'))"

text \<open>\<open>os.Getenv\<close>: the value of the variable, empty when the variable is not set.\<close>

definition Getenv :: "os \<Rightarrow> string \<Rightarrow> string" where
  "Getenv os key = (case map_of (environ os) key of None \<Rightarrow> [] | Some v \<Rightarrow> v)"

text \<open>
  \<open>os.IsExist\<close> on the error of a raw system call: the message of \<open>EEXIST\<close> or of
  \<open>ENOTEMPTY\<close>.
\<close>

definition IsExist :: "error \<Rightarrow> bool" where
  "IsExist err = (err = Sys ''file exists'' \<or> err = Sys ''directory not empty'')"

section \<open>Package resources\<close>

record ResourceConfig =
  MemoryLimit :: string
  CpuSet :: string
  CpuShare :: int

definition cgroupMemoryPath :: string where
  "cgroupMemoryPath = ''/sys/fs/cgroup/memory''"

definition cgroupCpuPath :: string where
  "cgroupCpuPath = ''/sys/fs/cgroup/cpu''"

definition cgroupCpusetPath :: string where
  "cgroupCpusetPath = ''/sys/fs/cgroup/cpuset''"

definition parseMemoryLimit :: "os \<Rightarrow> string \<Rightarrow> error + int" where
  "parseMemoryLimit os memoryLimit0 =
     (let memoryLimit = ToLower os memoryLimit0;
          (multiplier, memoryLimit) =
            (if HasSuffix memoryLimit ''k'' then (1024, TrimSuffix memoryLimit ''k'')
             else if HasSuffix memoryLimit ''m'' then (1024 * 1024, TrimSuffix memoryLimit ''m'')
             else if HasSuffix memoryLimit ''g''
               then (1024 * 1024 * 1024, TrimSuffix memoryLimit ''g'')
             else (1, memoryLimit))
      in case ParseInt memoryLimit of
           Inl err \<Rightarrow> Inl (InvalidMemorySpec memoryLimit)
         | Inr v \<Rightarrow> Inr (wrap64 (v * multiplier)))"

definition setupMemoryLimit :: "os \<Rightarrow> string \<Rightarrow> int \<Rightarrow> string \<Rightarrow> trace \<Rightarrow> error option \<times> trace" where
  "setupMemoryLimit os cgroupName pid memoryLimit tr =
     (case parseMemoryLimit os memoryLimit of
        Inl err \<Rightarrow> (Some err, tr)
      | Inr memoryBytes \<Rightarrow>
          (let memoryPath = filepath_Join [cgroupMemoryPath, cgroupName]
           in steps
                [call os (MkdirAll memoryPath 493),
                 call os (WriteFile (filepath_Join [memoryPath, ''memory.limit_in_bytes''])
                            (Itoa memoryBytes) 420),
                 call os (WriteFile (filepath_Join [memoryPath, ''memory.swappiness'']) ''0'' 420),
                 call os (WriteFile (filepath_Join [memoryPath, ''tasks'']) (Itoa pid) 420)]
                tr))"

definition setupCpuSet :: "os \<Rightarrow> string \<Rightarrow> int \<Rightarrow> string \<Rightarrow> trace \<Rightarrow> error option \<times> trace" where
  "setupCpuSet os cgroupName pid cpuSet tr =
     (let cpusetPath = filepath_Join [cgroupCpusetPath, cgroupName]
      in steps
           [call os (MkdirAll cpusetPath 493),
            call os (WriteFile (filepath_Join [cpusetPath, ''cpuset.cpus'']) cpuSet 420),
            call os (WriteFile (filepath_Join [cpusetPath, ''cpuset.mems'']) ''0'' 420),
            call os (WriteFile (filepath_Join [cpusetPath, ''tasks'']) (Itoa pid) 420)]
           tr)"

definition setupCpuShare :: "os \<Rightarrow> string \<Rightarrow> int \<Rightarrow> int \<Rightarrow> trace \<Rightarrow> error option \<times> trace" where
  "setupCpuShare os cgroupName pid cpuShare tr =
     (let cpuPath = filepath_Join [cgroupCpuPath, cgroupName]
      in steps
           [call os (MkdirAll cpuPath 493),
            call os (WriteFile (filepath_Join [cpuPath, ''cpu.shares'']) (Itoa cpuShare) 420),
            call os (WriteFile (filepath_Join [cpuPath, ''tasks'']) (Itoa pid) 420)]
           tr)"

text \<open>A dimension that is not set is skipped.\<close>

definition when_set ::
  "bool \<Rightarrow> (trace \<Rightarrow> error option \<times> trace) \<Rightarrow> trace \<Rightarrow> error option \<times> trace" where
  "when_set b f tr = (if b then f tr else (None, tr))"

definition ApplyResourceLimits :: "os \<Rightarrow> int \<Rightarrow> ResourceConfig \<Rightarrow> trace \<Rightarrow> error option \<times> trace" where
  "ApplyResourceLimits os pid config tr =
     (if MemoryLimit config = [] \<and> CpuSet config = [] \<and> CpuShare config = 0 then (None, tr)
      else
        (let cgroupName = ''godocker-'' @ Itoa pid
         in steps
              [when_set (MemoryLimit config \<noteq> [])
                 (wrap MemoryLimitError (setupMemoryLimit os cgroupName pid (MemoryLimit config))),
               when_set (CpuSet config \<noteq> [])
                 (wrap CpuSetError (setupCpuSet os cgroupName pid (CpuSet config))),
               when_set (CpuShare config > 0)
                 (wrap CpuShareError (setupCpuShare os cgroupName pid (CpuShare config)))]
              tr))"

section \<open>Package network\<close>

record NetworkConfig =
  Mode :: string
  IPAddress :: string
  Gateway :: string
  Subnet :: string
  MacAddr :: string

definition BridgeMode :: string where "BridgeMode = ''bridge''"
definition HostMode :: string where "HostMode = ''host''"
definition NoneMode :: string where "NoneMode = ''none''"
definition DefaultBridge :: string where "DefaultBridge = ''godocker0''"
definition DefaultSubnet :: string where "DefaultSubnet = ''172.17.0.0/16''"
definition DefaultGateway :: string where "DefaultGateway = ''172.17.0.1''"
definition DefaultIPPrefix :: string where "DefaultIPPrefix = ''172.17.0.''"

text \<open>
  \<open>deviceExists\<close>: the interface is looked up; the error that says there is no such
  interface means it does not exist, any other error is returned.
\<close>

definition deviceExists :: "os \<Rightarrow> string \<Rightarrow> trace \<Rightarrow> (bool \<times> error option) \<times> trace" where
  "deviceExists os name tr =
     ((case sys_err os tr (InterfaceByName name) of
         Some msg \<Rightarrow>
           if Contains msg ''no such network interface'' then (False, None)
           else (False, Some (Sys msg))
       | None \<Rightarrow> (True, None)),
      tr @ [InterfaceByName name])"

definition setupBridge :: "os \<Rightarrow> trace \<Rightarrow> error option \<times> trace" where
  "setupBridge os tr =
     (case deviceExists os DefaultBridge tr of
        ((exists, _), tr1) \<Rightarrow>
          if exists then say (LogBridgeExists DefaultBridge) tr1
          else
            steps
              [say (LogCreatingBridge DefaultBridge),
               wrap (Wrap ''create bridge'')
                 (call os (Output [''ip'', ''link'', ''add'', ''name'', DefaultBridge,
                                   ''type'', ''bridge''])),
               wrap (Wrap ''set bridge address'')
                 (call os (Output [''ip'', ''addr'', ''add'', DefaultGateway @ ''/16'',
                                   ''dev'', DefaultBridge])),
               wrap (Wrap ''bring bridge up'')
                 (call os (Output [''ip'', ''link'', ''set'', ''dev'', DefaultBridge, ''up'']))]
              tr1)"

definition createVethPair :: "os \<Rightarrow> string \<Rightarrow> string \<Rightarrow> trace \<Rightarrow> error option \<times> trace" where
  "createVethPair os vethName peerName tr =
     steps
       [wrap (Wrap ''create veth pair'')
          (call os (Output [''ip'', ''link'', ''add'', vethName, ''type'', ''veth'',
                            ''peer'', ''name'', peerName])),
        wrap (Wrap ''bring veth up'')
          (call os (Output [''ip'', ''link'', ''set'', ''dev'', vethName, ''up'']))]
       tr"

definition setupContainerNetns ::
  "os \<Rightarrow> string \<Rightarrow> string \<Rightarrow> int \<Rightarrow> string \<Rightarrow> trace \<Rightarrow> error option \<times> trace" where
  "setupContainerNetns os vethName peerName pid ipAddr tr =
     steps
       [wrap (Wrap ''move peer into namespace'')
          (call os (Output [''ip'', ''link'', ''set'', peerName, ''netns'', Itoa pid])),
        wrap (Wrap ''rename interface'')
          (call os (Output [''nsenter'', ''-t'', Itoa pid, ''-n'', ''ip'', ''link'', ''set'',
                            ''dev'', peerName, ''name'', ''eth0''])),
        wrap (Wrap ''set address'')
          (call os (Output [''nsenter'', ''-t'', Itoa pid, ''-n'', ''ip'', ''addr'', ''add'',
                            ipAddr @ ''/16'', ''dev'', ''eth0''])),
        wrap (Wrap ''bring interface up'')
          (call os (Output [''nsenter'', ''-t'', Itoa pid, ''-n'', ''ip'', ''link'', ''set'',
                            ''dev'', ''eth0'', ''up''])),
        wrap (Wrap ''set default route'')
          (call os (Output [''nsenter'', ''-t'', Itoa pid, ''-n'', ''ip'', ''route'', ''add'',
                            ''default'', ''via'', DefaultGateway]))]
       tr"

definition connectVethToBridge :: "os \<Rightarrow> string \<Rightarrow> string \<Rightarrow> trace \<Rightarrow> error option \<times> trace" where
  "connectVethToBridge os vethName bridge tr =
     wrap (Wrap ''connect veth to bridge'')
       (call os (Output [''ip'', ''link'', ''set'', ''dev'', vethName, ''master'', bridge])) tr"

text \<open>The masquerade rule may exist already: its failure is printed, not returned.\<close>

definition setupNAT :: "os \<Rightarrow> string \<Rightarrow> string \<Rightarrow> trace \<Rightarrow> error option \<times> trace" where
  "setupNAT os bridge subnet tr =
     steps
       [wrap (Wrap ''enable forwarding'')
          (call os (Output [''sysctl'', ''-w'', ''net.ipv4.ip_forward=1''])),
        (\<lambda>tr. case call os (Output [''iptables'', ''-t'', ''nat'', ''-A'', ''POSTROUTING'',
                                     ''-s'', subnet, ''!'', ''-o'', bridge, ''-j'',
                                     ''MASQUERADE'']) tr of
                 (Some err, tr') \<Rightarrow> say (WarnNAT err) tr'
               | (None, tr') \<Rightarrow> (None, tr'))]
       tr"

text \<open>\<open>allocateIP\<close> reads the process id of the runtime itself.\<close>

definition allocateIP :: "os \<Rightarrow> string" where
  "allocateIP os =
     (let lastOctet = go_rem (Getpid os) 254;
          lastOctet = (if lastOctet < 2 then 100 else lastOctet)
      in DefaultIPPrefix @ Itoa lastOctet)"

text \<open>
  \<open>SetupNetwork\<close>. The slice \<open>containerID[:8]\<close> panics on an id shorter than 8 bytes.
\<close>

definition SetupNetwork ::
  "os \<Rightarrow> string \<Rightarrow> string \<Rightarrow> int \<Rightarrow> trace \<Rightarrow> (error + NetworkConfig) \<times> trace" where
  "SetupNetwork os netMode containerID pid tr =
     (let netConfig = \<lparr>Mode = netMode, IPAddress = [], Gateway = [], Subnet = [], MacAddr = []\<rparr>
      in if netMode = BridgeMode then
           (case setupBridge os tr of
              (Some err, tr1) \<Rightarrow> (Inl (BridgeError err), tr1)
            | (None, tr1) \<Rightarrow>
                if length containerID < 8 then (Inl Panic, tr1)
                else
                  (let vethName = ''veth-'' @ take 8 containerID;
                       peerName = ''eth0'';
                       ipAddr = allocateIP os;
                       netConfig = netConfig\<lparr>IPAddress := ipAddr, Gateway := DefaultGateway,
                                             Subnet := DefaultSubnet\<rparr>
                   in case steps
                             [wrap VethPairError (createVethPair os vethName peerName),
                              wrap NetnsError (setupContainerNetns os vethName peerName pid ipAddr),
                              wrap BridgeConnectError
                                (connectVethToBridge os vethName DefaultBridge),
                              wrap NATError (setupNAT os DefaultBridge DefaultSubnet)]
                             tr1 of
                        (Some err, tr2) \<Rightarrow> (Inl err, tr2)
                      | (None, tr2) \<Rightarrow> (Inr netConfig, tr2)))
         else if netMode = HostMode then (Inr netConfig, print LogHostMode tr)
         else if netMode = NoneMode then (Inr netConfig, print LogNoNetwork tr)
         else (Inl (UnsupportedMode netMode), tr))"

section \<open>Package container\<close>

record VolumeMapping =
  HostPath :: string
  ContainerPath :: string

record Config =
  Name :: string
  Image :: string
  Command :: "string list"
  Tty :: bool
  Detach :: bool
  Network :: string
  Volumes :: "VolumeMapping list"
  Resource :: ResourceConfig

record ContainerInfo =
  ID :: string
  Name :: string
  Pid :: int
  Image :: string
  Command :: "string list"
  Status :: string
  CreateTime :: int
  Config :: Config

definition DefaultContainerRoot :: string where
  "DefaultContainerRoot = ''/var/lib/godocker''"

text \<open>
  The two status constants are Chinese words in the source (``running'' and ``stopped'');
  they are given here by their UTF-8 bytes.
\<close>

definition StatusRunning :: string where
  "StatusRunning =
     [CHR 0xE8, CHR 0xBF, CHR 0x90, CHR 0xE8, CHR 0xA1, CHR 0x8C, CHR 0xE4, CHR 0xB8, CHR 0xAD]"

definition StatusStopped :: string where
  "StatusStopped =
     [CHR 0xE5, CHR 0xB7, CHR 0xB2, CHR 0xE5, CHR 0x81, CHR 0x9C, CHR 0xE6, CHR 0xAD, CHR 0xA2]"

text \<open>
  The state of the orchestrator: the registry \<open>runningContainers\<close>, a Go map from the
  container id to the record, kept as an association list, and the trace of the events
  so far. The map holds pointers and the functions change a record through its pointer;
  here the changed record is stored back under its id.
\<close>

record world =
  runningContainers :: "(string \<times> ContainerInfo) list"
  trace :: trace

text \<open>A Go map has one entry for each key.\<close>

definition wf_registry :: "(string \<times> ContainerInfo) list \<Rightarrow> bool" where
  "wf_registry reg = distinct (map fst reg)"

subsection \<open>Container ids\<close>

definition hex_char :: "int \<Rightarrow> char" where
  "hex_char d = ''0123456789abcdef'' ! nat d"

text \<open>The last \<open>k\<close> hexadecimal digits of a number, most significant first.\<close>

fun hex_digits :: "nat \<Rightarrow> int \<Rightarrow> string" where
  "hex_digits 0 n = []"
| "hex_digits (Suc k) n = hex_digits k (n div 16) @ [hex_char (n mod 16)]"

text \<open>
  \<open>UUID.String\<close>: the 32 hexadecimal digits of the 128 bits in the groups 8-4-4-4-12.
\<close>

definition uuid_String :: "int \<Rightarrow> string" where
  "uuid_String u =
     (let h = hex_digits 32 u
      in take 8 h @ ''-'' @ take 4 (drop 8 h) @ ''-'' @ take 4 (drop 12 h) @ ''-''
         @ take 4 (drop 16 h) @ ''-'' @ drop 20 h)"

definition generateContainerId :: "os \<Rightarrow> trace \<Rightarrow> string" where
  "generateContainerId os tr = uuid_String (uuid_New os tr)"

subsection \<open>Creating a container\<close>

definition prepareRootfs :: "os \<Rightarrow> string \<Rightarrow> string \<Rightarrow> trace \<Rightarrow> (error + string) \<times> trace" where
  "prepareRootfs os containerId imageName tr =
     (let containerRoot = filepath_Join [DefaultContainerRoot, containerId]
      in case steps
                [call os (MkdirAll containerRoot 493),
                 say (LogPreparingRootfs containerRoot imageName),
                 call os (WriteFile (filepath_Join [containerRoot, ''.rootfs_ready''])
                            imageName 420)]
                tr of
           (Some err, tr') \<Rightarrow> (Inl err, tr')
         | (None, tr') \<Rightarrow> (Inr containerRoot, tr'))"

text \<open>\<open>setNamespaceFlags\<close> on Linux.\<close>

definition setNamespaceFlags :: "clone_flag list" where
  "setNamespaceFlags = [CLONE_NEWUTS, CLONE_NEWPID, CLONE_NEWNS, CLONE_NEWNET]"

definition startContainer :: "os \<Rightarrow> ContainerInfo \<Rightarrow> string \<Rightarrow> trace \<Rightarrow> (error + int) \<times> trace" where
  "startContainer os container rootfs tr =
     (let env = [''PATH=/bin:/usr/bin:/sbin:/usr/sbin'',
                 ''TERM=xterm'',
                 ''CONTAINER_ID='' @ ID container,
                 ''CONTAINER_NAME='' @ ContainerInfo.Name container]
                @ [''CONTAINER_CMD='' @ strings_Join (ContainerInfo.Command container) '' '',
                   ''CONTAINER_ROOTFS='' @ rootfs];
          ev = Start ''/proc/self/exe'' [''init''] env setNamespaceFlags
                 (Tty (Config container))
      in case start_pid os tr ev of
           Inl msg \<Rightarrow> (Inl (Sys msg), tr @ [ev])
         | Inr pid \<Rightarrow> (Inr pid, print (LogProcessStarted pid) (tr @ [ev])))"

text \<open>The loop over the registry that looks for a record with the requested name.\<close>

definition name_in_use :: "(string \<times> ContainerInfo) list \<Rightarrow> string \<Rightarrow> bool" where
  "name_in_use reg name = list_ex (\<lambda>(_, c). ContainerInfo.Name c = name) reg"

text \<open>
  \<open>NewContainer\<close>. The source writes the default name into the caller's configuration;
  here the changed configuration is the local \<open>config\<close>, which is copied into the record.
  A panic inside the network setup is no error that could be printed: it ends the call.
\<close>

definition NewContainer :: "os \<Rightarrow> Config \<Rightarrow> world \<Rightarrow> (error + string) \<times> world" where
  "NewContainer os config0 w =
     (let containerId = generateContainerId os (trace w)
      in if Config.Name config0 \<noteq> [] \<and> name_in_use (runningContainers w) (Config.Name config0)
         then (Inl (DuplicateName (Config.Name config0)), w)
         else
           (let config = (if Config.Name config0 \<noteq> [] then config0
                          else config0\<lparr>Config.Name := take 12 containerId\<rparr>)
            in case prepareRootfs os containerId (Config.Image config) (trace w) of
                 (Inl err, tr1) \<Rightarrow> (Inl (RootfsPreparationError err), w\<lparr>trace := tr1\<rparr>)
               | (Inr containerRoot, tr1) \<Rightarrow>
                   (let container =
                          \<lparr>ID = containerId, Name = Config.Name config, Pid = 0,
                           Image = Config.Image config, Command = Config.Command config,
                           Status = StatusRunning, CreateTime = time_Now os tr1,
                           Config = config\<rparr>
                    in case startContainer os container containerRoot tr1 of
                         (Inl err, tr2) \<Rightarrow> (Inl (ProcessStartError err), w\<lparr>trace := tr2\<rparr>)
                       | (Inr pid, tr2) \<Rightarrow>
                           (let container = container\<lparr>Pid := pid\<rparr>;
                                reg = AList.update containerId container (runningContainers w);
                                (rerr, tr3) = ApplyResourceLimits os pid (Resource config) tr2;
                                tr4 = (case rerr of
                                         Some err \<Rightarrow> print (WarnResourceLimits err) tr3
                                       | None \<Rightarrow> tr3)
                            in if Network config \<noteq> [] \<and> Network config \<noteq> ''none'' then
                                 (case SetupNetwork os (Network config) containerId pid tr4 of
                                    (Inl Panic, tr5) \<Rightarrow>
                                      (Inl Panic, \<lparr>runningContainers = reg, trace = tr5\<rparr>)
                                  | (Inl err, tr5) \<Rightarrow>
                                      (Inr containerId,
                                       \<lparr>runningContainers = reg,
                                        trace = print (WarnNetwork err) tr5\<rparr>)
                                  | (Inr _, tr5) \<Rightarrow>
                                      (Inr containerId, \<lparr>runningContainers = reg, trace = tr5\<rparr>))
                               else (Inr containerId, \<lparr>runningContainers = reg, trace = tr4\<rparr>)))))"

subsection \<open>Stopping, removing and waiting\<close>

definition StopContainer :: "os \<Rightarrow> string \<Rightarrow> world \<Rightarrow> error option \<times> world" where
  "StopContainer os containerId w =
     (case map_of (runningContainers w) containerId of
        None \<Rightarrow> (Some (NotFound containerId), w)
      | Some container \<Rightarrow>
          if Status container = StatusStopped then (None, w)
          else
            (case call os (FindProcess (Pid container)) (trace w) of
               (Some err, tr1) \<Rightarrow> (Some (ProcessLookupError err), w\<lparr>trace := tr1\<rparr>)
             | (None, tr1) \<Rightarrow>
                 (let (kerr, tr3) =
                        (case call os (SignalTerm (Pid container)) tr1 of
                           (Some err, tr2) \<Rightarrow>
                             call os (Kill (Pid container)) (print (WarnSigtermFailed err) tr2)
                         | (None, tr2) \<Rightarrow> (None, tr2))
                  in case kerr of
                       Some err \<Rightarrow> (Some (KillError err), w\<lparr>trace := tr3\<rparr>)
                     | None \<Rightarrow>
                         (None,
                          \<lparr>runningContainers =
                             AList.update containerId (container\<lparr>Status := StatusStopped\<rparr>)
                               (runningContainers w),
                           trace = tr3\<rparr>))))"

definition RemoveContainer :: "os \<Rightarrow> string \<Rightarrow> world \<Rightarrow> error option \<times> world" where
  "RemoveContainer os containerId w =
     (case map_of (runningContainers w) containerId of
        None \<Rightarrow> (Some (NotFound containerId), w)
      | Some container \<Rightarrow>
          (let (serr, w1) = (if Status container = StatusRunning then StopContainer os containerId w
                             else (None, w))
           in case serr of
                Some err \<Rightarrow> (Some (StopError err), w1)
              | None \<Rightarrow>
                  (let containerRoot = filepath_Join [DefaultContainerRoot, containerId];
                       (rerr, tr2) = call os (RemoveAll containerRoot) (trace w1);
                       tr3 = (case rerr of
                                Some err \<Rightarrow> print (WarnCleanupFailed err) tr2
                              | None \<Rightarrow> tr2)
                   in (None,
                       \<lparr>runningContainers = AList.delete containerId (runningContainers w1),
                        trace = tr3\<rparr>))))"

text \<open>
  \<open>WaitContainer\<close> returns an \<open>error\<close> and nothing else. The exit code that
  \<open>process.Wait\<close> reports goes into the line that is printed. The slice
  \<open>containerId[:12]\<close> in that line panics on an id shorter than 12 bytes, after the
  status was set.
\<close>

definition WaitContainer :: "os \<Rightarrow> string \<Rightarrow> world \<Rightarrow> error option \<times> world" where
  "WaitContainer os containerId w =
     (case map_of (runningContainers w) containerId of
        None \<Rightarrow> (Some (NotFound containerId), w)
      | Some container \<Rightarrow>
          if Status container = StatusStopped then (None, w)
          else
            (case call os (FindProcess (Pid container)) (trace w) of
               (Some err, tr1) \<Rightarrow> (Some (ProcessLookupError err), w\<lparr>trace := tr1\<rparr>)
             | (None, tr1) \<Rightarrow>
                 (let tr2 = tr1 @ [Wait (Pid container)]
                  in case wait_code os tr1 (Pid container) of
                       Inl msg \<Rightarrow> (Some (WaitError (Sys msg)), w\<lparr>trace := tr2\<rparr>)
                     | Inr code \<Rightarrow>
                         (let reg = AList.update containerId
                                      (container\<lparr>Status := StatusStopped\<rparr>)
                                      (runningContainers w)
                          in if length containerId < 12
                             then (Some Panic, \<lparr>runningContainers = reg, trace = tr2\<rparr>)
                             else (None,
                                   \<lparr>runningContainers = reg,
                                    trace = print (LogExited (take 12 containerId) code)
                                              tr2\<rparr>)))))"

subsection \<open>The init process inside the container (Linux)\<close>

definition setHostname :: "os \<Rightarrow> string \<Rightarrow> trace \<Rightarrow> error option \<times> trace" where
  "setHostname os hostname tr = call os (Sethostname hostname) tr"

definition mountFilesystem ::
  "os \<Rightarrow> string \<Rightarrow> string \<Rightarrow> string \<Rightarrow> int \<Rightarrow> string \<Rightarrow> trace \<Rightarrow> error option \<times> trace" where
  "mountFilesystem os source target fstype flags data tr =
     call os (Mount source target fstype flags data) tr"

text \<open>A node that exists already is no failure of \<open>Mknod\<close>.\<close>

definition setupContainerMounts :: "os \<Rightarrow> string \<Rightarrow> trace \<Rightarrow> error option \<times> trace" where
  "setupContainerMounts os rootfs tr =
     steps
       (map (\<lambda>dir. wrap (Wrap ''create directory'')
                     (call os (MkdirAll (filepath_Join [rootfs, dir]) 493)))
          [''/proc'', ''/sys'', ''/dev'', ''/dev/pts'', ''/tmp'']
        @ [wrap (Wrap ''mount proc'')
             (mountFilesystem os ''proc'' (filepath_Join [rootfs, ''/proc'']) ''proc'' 0 []),
           wrap (Wrap ''mount sys'')
             (mountFilesystem os ''sysfs'' (filepath_Join [rootfs, ''/sys'']) ''sysfs'' 0 []),
           wrap (Wrap ''mount dev'')
             (mountFilesystem os ''tmpfs'' (filepath_Join [rootfs, ''/dev'']) ''tmpfs'' 0 []),
           wrap (Wrap ''create /dev/pts'')
             (call os (MkdirAll (filepath_Join [rootfs, ''/dev/pts'']) 493)),
           wrap (Wrap ''mount dev/pts'')
             (mountFilesystem os ''devpts'' (filepath_Join [rootfs, ''/dev/pts'']) ''devpts'' 0
                ''newinstance,ptmxmode=0666,mode=0620''),
           (\<lambda>tr. case call os (Mknod (filepath_Join [rootfs, ''/dev/null'']) 8630 259) tr of
                    (Some err, tr') \<Rightarrow>
                      if \<not> IsExist err then (Some (Wrap ''create /dev/null'' err), tr')
                      else (None, tr')
                  | (None, tr') \<Rightarrow> (None, tr'))])
       tr"

text \<open>
  \<open>InitContainer\<close>. \<open>syscall.Exec\<close> returns only when it fails: the result \<open>None\<close>
  after the \<open>Exec\<close> event means that the process image was replaced.
\<close>

definition InitContainer :: "os \<Rightarrow> trace \<Rightarrow> error option \<times> trace" where
  "InitContainer os tr =
     (let rootfs = Getenv os ''CONTAINER_ROOTFS'';
          cmdString = Getenv os ''CONTAINER_CMD'';
          containerName = Getenv os ''CONTAINER_NAME''
      in if rootfs = [] \<or> cmdString = [] then (Some MissingConfiguration, tr)
         else
           steps
             [say (LogInit containerName rootfs),
              wrap (Wrap ''set hostname'') (setHostname os containerName),
              wrap (Wrap ''set up mounts'') (setupContainerMounts os rootfs),
              wrap (Wrap ''chroot'') (call os (Chroot rootfs)),
              wrap (Wrap ''change directory'') (call os (Chdir ''/'')),
              (\<lambda>tr. let cmdParts = Split cmdString (CHR '' '')
                     in if length cmdParts = 0 then (Some InvalidCommand, tr)
                        else
                          (case look_path os tr (hd cmdParts) of
                             Inl msg \<Rightarrow>
                               (Some (Wrap ''command not found'' (Sys msg)),
                                tr @ [LookPath (hd cmdParts)])
                           | Inr cmdPath \<Rightarrow>
                               call os (Exec cmdPath cmdParts)
                                 (print (LogExec cmdString) (tr @ [LookPath (hd cmdParts)]))))]
             tr)"

section \<open>Notions of the specification\<close>

subsection \<open>Memory size strings\<close>








subsection \<open>The environment of the init process\<close>

text \<open>
  A variable is absent when the environment has no entry for it. \<open>os.Getenv\<close> gives the
  empty string for an absent variable and for a variable that is set to the empty string.
\<close>

definition absent :: "os \<Rightarrow> string \<Rightarrow> bool" where
  "absent os key = (map_of (environ os) key = None)"

definition absent_or_empty :: "os \<Rightarrow> string \<Rightarrow> bool" where
  "absent_or_empty os key =
     (case map_of (environ os) key of None \<Rightarrow> True | Some v \<Rightarrow> v = [])"

subsection \<open>Creating containers\<close>

text \<open>
  The record that \<open>NewContainer\<close> builds for a configuration, a container id, the trace
  after the preparation of the root filesystem and a process id: the name is the requested
  one, or the first 12 bytes of the id when none was requested.
\<close>

definition new_record :: "os \<Rightarrow> Config \<Rightarrow> string \<Rightarrow> trace \<Rightarrow> int \<Rightarrow> ContainerInfo" where
  "new_record os cfg cid tr1 pid =
     \<lparr>ID = cid,
      Name = (if Config.Name cfg \<noteq> [] then Config.Name cfg else take 12 cid),
      Pid = pid, Image = Config.Image cfg, Command = Config.Command cfg,
      Status = StatusRunning, CreateTime = time_Now os tr1,
      Config = (if Config.Name cfg \<noteq> [] then cfg else cfg\<lparr>Config.Name := take 12 cid\<rparr>)\<rparr>"


text \<open>A sequence of \<open>NewContainer\<close> calls, one for each configuration, with their results.\<close>

fun create_all :: "os \<Rightarrow> Config list \<Rightarrow> world \<Rightarrow> (error + string) list \<times> world" where
  "create_all os [] w = ([], w)"
| "create_all os (cfg # cfgs) w =
     (case NewContainer os cfg w of
        (r, w1) \<Rightarrow> (case create_all os cfgs w1 of (rs, w2) \<Rightarrow> (r # rs, w2)))"


section \<open>Example scenarios\<close>

text \<open>
  A lower-casing for the examples: it knows the ASCII letters and the Kelvin sign (the
  bytes \<open>E2 84 AA\<close>, which become \<open>k\<close>) and keeps every other byte.
\<close>

fun example_ToLower :: "string \<Rightarrow> string" where
  "example_ToLower (a # b # c # cs) =
     (if a = CHR 0xE2 \<and> b = CHR 0x84 \<and> c = CHR 0xAA then CHR ''k'' # example_ToLower cs
      else lower a # example_ToLower (b # c # cs))"
| "example_ToLower (a # cs) = lower a # example_ToLower cs"
| "example_ToLower [] = []"

text \<open>
  An operating system on which every call succeeds: the spawned process has the process
  id 4242 and exits with code 3, and \<open>uuid.New\<close> gives a new number as the trace grows.
  The environment is the one of an init process without a container name.
\<close>

definition example_os :: os where
  "example_os =
     \<lparr>sys_err = (\<lambda>tr ev. None),
      start_pid = (\<lambda>tr ev. Inr 4242),
      wait_code = (\<lambda>tr pid. Inr 3),
      look_path = (\<lambda>tr file. Inr file),
      uuid_New = (\<lambda>tr. 1000 + int (length tr)),
      time_Now = (\<lambda>tr. 0),
      Getpid = 777,
      environ = [(''CONTAINER_ROOTFS'', ''/var/lib/godocker/c1''),
                 (''CONTAINER_CMD'', ''/bin/sh'')],
      ToLower = example_ToLower\<rparr>"

text \<open>The same with the command variable set to the empty string.\<close>

definition empty_cmd_os :: os where
  "empty_cmd_os =
     example_os\<lparr>environ := [(''CONTAINER_ROOTFS'', ''/var/lib/godocker/c1''),
                            (''CONTAINER_CMD'', '''')]\<rparr>"

text \<open>A container that was created from a configuration, running and stopped.\<close>

definition example_id :: string where
  "example_id = ''123e4567-e89b-12d3-a456-426614174000''"

definition example_config :: Config where
  "example_config =
     \<lparr>Config.Name = ''web'', Image = ''alpine'', Command = [''/bin/sh''], Tty = False,
      Detach = False, Network = ''bridge'', Volumes = [],
      Resource = \<lparr>MemoryLimit = ''100m'', CpuSet = [], CpuShare = 0\<rparr>\<rparr>"

definition running_record :: ContainerInfo where
  "running_record =
     \<lparr>ID = example_id, Name = ''web'', Pid = 4242, Image = ''alpine'', Command = [''/bin/sh''],
      Status = StatusRunning, CreateTime = 0, Config = example_config\<rparr>"

definition running_world :: world where
  "running_world = \<lparr>runningContainers = [(example_id, running_record)], trace = []\<rparr>"

definition stopped_world :: world where
  "stopped_world =
     \<lparr>runningContainers = [(example_id, running_record\<lparr>Status := StatusStopped\<rparr>)],
      trace = []\<rparr>"

text \<open>
  An operating system that refuses both signals, and one on which the process exits with
  code 7.
\<close>

definition unkillable_os :: os where
  "unkillable_os =
     example_os\<lparr>sys_err := (\<lambda>tr ev. case ev of
                                          SignalTerm pid \<Rightarrow> Some ''operation not permitted''
                                        | Kill pid \<Rightarrow> Some ''operation not permitted''
                                        | _ \<Rightarrow> None)\<rparr>"

definition exit7_os :: os where
  "exit7_os = example_os\<lparr>wait_code := (\<lambda>tr pid. Inr 7)\<rparr>"

text \<open>
  Two more configurations, the first with a memory limit that does not parse and a network
  mode that does not exist.
\<close>

definition db_config :: Config where
  "db_config = example_config\<lparr>Config.Name := ''db'', Network := ''overlay'',
     Resource := \<lparr>MemoryLimit = ''lots'', CpuSet = [], CpuShare = 0\<rparr>\<rparr>"

definition cache_config :: Config where
  "cache_config = example_config\<lparr>Config.Name := ''cache''\<rparr>"

text \<open>
  An operating system on which no directory can be made, and one on which no process can
  be spawned.
\<close>

definition no_disk_os :: os where
  "no_disk_os = example_os\<lparr>sys_err := (\<lambda>tr ev. case ev of
                                            MkdirAll path perm \<Rightarrow> Some ''no space left on device''
                                          | _ \<Rightarrow> None)\<rparr>"

definition no_spawn_os :: os where
  "no_spawn_os = example_os\<lparr>start_pid := (\<lambda>tr ev. Inl ''operation not permitted'')\<rparr>"


section \<open>Properties\<close>

subsection \<open>The memory-limit parser\<close>












subsection \<open>The address allocator\<close>

lemma go_rem_bounds: "- 253 \<le> go_rem a 254 \<and> go_rem a 254 \<le> 253"
proof -
  have "0 \<le> \<bar>a\<bar> mod 254" "\<bar>a\<bar> mod 254 \<le> 253" by simp_all
  moreover have "sgn a = -1 \<or> sgn a = 0 \<or> sgn a = 1" by (auto simp: sgn_if)
  ultimately show ?thesis unfolding go_rem_def by auto
qed

text \<open>
  Claim C9. Every address the bridge-mode allocator produces is \<open>172.17.0.\<close> followed by
  the decimal form of a last octet between 2 and 253: the process id modulo 254, with the
  values below 2 replaced by 100.
\<close>

theorem allocateIP_range:
  "\<exists>n. 2 \<le> n \<and> n \<le> 253 \<and> allocateIP os = ''172.17.0.'' @ Itoa n"
proof (cases "go_rem (Getpid os) 254 < 2")
  case True
  then have "allocateIP os = ''172.17.0.'' @ Itoa 100"
    by (simp add: allocateIP_def DefaultIPPrefix_def Let_def)
  then show ?thesis by (intro exI [of _ 100]) simp
next
  case False
  then have "allocateIP os = ''172.17.0.'' @ Itoa (go_rem (Getpid os) 254)"
    by (simp add: allocateIP_def DefaultIPPrefix_def Let_def)
  with False go_rem_bounds [of "Getpid os"] show ?thesis
    by (intro exI [of _ "go_rem (Getpid os) 254"]) simp
qed

subsection \<open>Unsupported network modes\<close>

text \<open>
  Claim C10. For every network mode other than \<open>bridge\<close>, \<open>host\<close> and \<open>none\<close>,
  \<open>SetupNetwork\<close> returns the unsupported-mode error and no network configuration, and the
  trace is unchanged: no bridge, no veth pair, no address, no line printed.
\<close>

theorem SetupNetwork_unsupported_mode:
  assumes "netMode \<noteq> ''bridge''" and "netMode \<noteq> ''host''" and "netMode \<noteq> ''none''"
  shows "SetupNetwork os netMode containerID pid tr = (Inl (UnsupportedMode netMode), tr)"
  using assms by (simp add: SetupNetwork_def BridgeMode_def HostMode_def NoneMode_def)

theorem SetupNetwork_unsupported_mode_witness:
  "SetupNetwork example_os ''overlay'' ''c1'' 4242 [] = (Inl (UnsupportedMode ''overlay''), [])"
  using SetupNetwork_unsupported_mode [of "''overlay''" example_os "''c1''" 4242 "[]"] by simp

subsection \<open>Stopping a stopped container\<close>

lemma StopContainer_stopped:
  "map_of (runningContainers w) containerId = Some c \<Longrightarrow> Status c = StatusStopped \<Longrightarrow>
     StopContainer os containerId w = (None, w)"
  by (simp add: StopContainer_def)

lemma StopContainer_success_stopped:
  assumes "StopContainer os containerId w = (None, w')"
  shows "\<exists>c. map_of (runningContainers w') containerId = Some c \<and> Status c = StatusStopped"
proof (cases "map_of (runningContainers w) containerId")
  case None
  with assms show ?thesis by (simp add: StopContainer_def)
next
  case (Some c)
  show ?thesis
  proof (cases "Status c = StatusStopped")
    case True
    with Some assms show ?thesis by (simp add: StopContainer_def)
  next
    case False
    with Some assms show ?thesis
      by (auto simp: StopContainer_def update_conv' Let_def
          split: prod.splits option.splits)
  qed
qed

text \<open>
  Claim C7. On a record whose status is \<open>Stopped\<close>, \<open>StopContainer\<close> returns no error and
  leaves the whole state as it was, the registry and the trace: no signal is sent. Hence a
  \<open>StopContainer\<close> after a successful \<open>StopContainer\<close> changes nothing, whatever the
  operating system answers.
\<close>

theorem Stop_on_stopped_is_noop:
  "(\<forall>c. map_of (runningContainers w) containerId = Some c \<and> Status c = StatusStopped \<longrightarrow>
        StopContainer os containerId w = (None, w)) \<and>
   (\<forall>w'. StopContainer os containerId w = (None, w') \<longrightarrow>
        StopContainer os2 containerId w' = (None, w'))"
proof (intro conjI allI impI)
  fix c assume "map_of (runningContainers w) containerId = Some c \<and> Status c = StatusStopped"
  then show "StopContainer os containerId w = (None, w)"
    by (simp add: StopContainer_stopped)
next
  fix w' assume "StopContainer os containerId w = (None, w')"
  from StopContainer_success_stopped [OF this]
  show "StopContainer os2 containerId w' = (None, w')"
    by (auto simp: StopContainer_stopped)
qed

theorem Stop_on_stopped_is_noop_witness:
  "map_of (runningContainers stopped_world) example_id
     = Some (running_record\<lparr>Status := StatusStopped\<rparr>) \<and>
   Status (running_record\<lparr>Status := StatusStopped\<rparr>) = StatusStopped \<and>
   StopContainer example_os example_id stopped_world = (None, stopped_world) \<and>
   StopContainer example_os example_id running_world
     = (None, stopped_world\<lparr>trace := [FindProcess 4242, SignalTerm 4242]\<rparr>) \<and>
   StopContainer empty_cmd_os example_id
       (stopped_world\<lparr>trace := [FindProcess 4242, SignalTerm 4242]\<rparr>)
     = (None, stopped_world\<lparr>trace := [FindProcess 4242, SignalTerm 4242]\<rparr>)"
proof -
  have a: "map_of (runningContainers stopped_world) example_id
             = Some (running_record\<lparr>Status := StatusStopped\<rparr>) \<and>
           Status (running_record\<lparr>Status := StatusStopped\<rparr>) = StatusStopped"
    by (simp add: stopped_world_def)
  have b: "StopContainer example_os example_id running_world
             = (None, stopped_world\<lparr>trace := [FindProcess 4242, SignalTerm 4242]\<rparr>)"
    by code_simp
  from Stop_on_stopped_is_noop [of stopped_world example_id example_os, THEN conjunct1,
      rule_format, OF a]
    Stop_on_stopped_is_noop [of running_world example_id example_os empty_cmd_os,
      THEN conjunct2, rule_format, OF b] a b
  show ?thesis by simp
qed

subsection \<open>The configuration check of the init process\<close>

lemma steps_error_origin:
  "steps fs tr = (Some e, tr') \<Longrightarrow> \<exists>f \<in> set fs. \<exists>t t'. f t = (Some e, t')"
proof (induction fs arbitrary: tr)
  case Nil
  then show ?case by simp
next
  case (Cons f fs)
  show ?case
  proof (cases "f tr")
    case (Pair r t1)
    show ?thesis
    proof (cases r)
      case None
      with Pair Cons.prems have "steps fs t1 = (Some e, tr')" by simp
      from Cons.IH [OF this] show ?thesis by auto
    next
      case (Some e1)
      with Pair Cons.prems have "f tr = (Some e, tr')" by simp
      then show ?thesis by auto
    qed
  qed
qed

lemma wrap_error: "wrap ctx f t = (Some e, t') \<Longrightarrow> \<exists>e0. e = ctx e0"
  by (auto simp: wrap_def split: prod.splits)

lemma InitContainer_unset:
  "Getenv os ''CONTAINER_ROOTFS'' = [] \<or> Getenv os ''CONTAINER_CMD'' = [] \<Longrightarrow>
     InitContainer os tr = (Some MissingConfiguration, tr)"
  by (auto simp: InitContainer_def Let_def)

lemma steps_never:
  assumes "\<And>f t t'. f \<in> set fs \<Longrightarrow> f t \<noteq> (Some e, t')"
  shows "steps fs tr \<noteq> (Some e, tr')"
  using steps_error_origin [of fs tr e tr'] assms by blast

lemma InitContainer_present:
  assumes "Getenv os ''CONTAINER_ROOTFS'' \<noteq> []" and "Getenv os ''CONTAINER_CMD'' \<noteq> []"
  shows "InitContainer os tr \<noteq> (Some MissingConfiguration, tr')"
  unfolding InitContainer_def Let_def
  using assms
  apply (simp del: steps.simps)
  apply (rule steps_never)
  apply (auto simp: say_def call_def dest!: wrap_error split: if_splits sum.splits)
  done

text \<open>
  Claim C8 as stated fails: the init process also fails with \<open>MissingConfiguration\<close>
  when both variables are present and the command string is empty.
\<close>

theorem InitContainer_absent_counterexample:
  "\<not> absent empty_cmd_os ''CONTAINER_ROOTFS'' \<and>
   \<not> absent empty_cmd_os ''CONTAINER_CMD'' \<and>
   InitContainer empty_cmd_os [] = (Some MissingConfiguration, [])"
  by (simp add: absent_def empty_cmd_os_def example_os_def InitContainer_def Getenv_def)

lemma Getenv_empty_iff: "Getenv os key = [] \<longleftrightarrow> absent_or_empty os key"
  by (simp add: Getenv_def absent_or_empty_def split: option.splits)

text \<open>
  Claim C8, amended. The init process fails with \<open>MissingConfiguration\<close> exactly when the
  rootfs-path variable or the command-string variable is absent or empty, and then it has
  performed no step: the trace is unchanged. The container-name variable plays no part.
\<close>

theorem InitContainer_missing_configuration:
  "(fst (InitContainer os tr) = Some MissingConfiguration \<longleftrightarrow>
      absent_or_empty os ''CONTAINER_ROOTFS'' \<or> absent_or_empty os ''CONTAINER_CMD'') \<and>
   (absent_or_empty os ''CONTAINER_ROOTFS'' \<or> absent_or_empty os ''CONTAINER_CMD'' \<longrightarrow>
      snd (InitContainer os tr) = tr)"
proof (cases "Getenv os ''CONTAINER_ROOTFS'' = [] \<or> Getenv os ''CONTAINER_CMD'' = []")
  case True
  from InitContainer_unset [OF this] True show ?thesis
    by (simp add: Getenv_empty_iff)
next
  case False
  then have "InitContainer os tr \<noteq> (Some MissingConfiguration, snd (InitContainer os tr))"
    by (intro InitContainer_present) simp_all
  then have "fst (InitContainer os tr) \<noteq> Some MissingConfiguration"
    by (metis prod.collapse)
  with False show ?thesis by (simp add: Getenv_empty_iff)
qed

theorem InitContainer_missing_configuration_witness:
  "absent_or_empty empty_cmd_os ''CONTAINER_CMD'' \<and>
   fst (InitContainer empty_cmd_os []) = Some MissingConfiguration \<and>
   snd (InitContainer empty_cmd_os []) = [] \<and>
   absent example_os ''CONTAINER_NAME'' \<and>
   \<not> absent_or_empty example_os ''CONTAINER_ROOTFS'' \<and>
   \<not> absent_or_empty example_os ''CONTAINER_CMD'' \<and>
   fst (InitContainer example_os []) \<noteq> Some MissingConfiguration"
proof -
  have a: "absent_or_empty empty_cmd_os ''CONTAINER_CMD''"
    by (simp add: absent_or_empty_def empty_cmd_os_def example_os_def)
  have b: "\<not> absent_or_empty example_os ''CONTAINER_ROOTFS''"
    "\<not> absent_or_empty example_os ''CONTAINER_CMD''"
    "absent example_os ''CONTAINER_NAME''"
    by (simp_all add: absent_or_empty_def absent_def example_os_def)
  from InitContainer_missing_configuration [of empty_cmd_os "[]"]
    InitContainer_missing_configuration [of example_os "[]"] a b
  show ?thesis by simp
qed

subsection \<open>Removing a container\<close>

lemma Status_constants_differ: "StatusRunning \<noteq> StatusStopped"
  by (simp add: StatusRunning_def StatusStopped_def)

lemma StopContainer_failure_registry:
  assumes "StopContainer os containerId w = (Some e, w1)"
  shows "runningContainers w1 = runningContainers w"
proof (cases "map_of (runningContainers w) containerId")
  case None
  with assms show ?thesis by (auto simp: StopContainer_def)
next
  case (Some c)
  with assms show ?thesis
    by (auto simp: StopContainer_def Let_def split: if_splits prod.splits option.splits)
qed

lemma RemoveContainer_absent:
  "map_of (runningContainers w) containerId = None \<Longrightarrow>
     RemoveContainer os containerId w = (Some (NotFound containerId), w)"
  by (simp add: RemoveContainer_def)

lemma RemoveContainer_stop_fails:
  assumes "map_of (runningContainers w) containerId = Some c" and "Status c = StatusRunning"
    and "StopContainer os containerId w = (Some e, w1)"
  shows "RemoveContainer os containerId w = (Some (StopError e), w1)"
  using assms by (simp add: RemoveContainer_def)

lemma RemoveContainer_running_success:
  assumes "map_of (runningContainers w) containerId = Some c" and "Status c = StatusRunning"
    and "RemoveContainer os containerId w = (None, w')"
  shows "\<exists>w1 rest. StopContainer os containerId w = (None, w1) \<and>
           runningContainers w' = AList.delete containerId (runningContainers w1) \<and>
           trace w' = trace w1 @ RemoveAll (filepath_Join [DefaultContainerRoot, containerId]) # rest"
proof (cases "StopContainer os containerId w")
  case (Pair serr w1)
  show ?thesis
  proof (cases serr)
    case (Some e)
    with Pair assms show ?thesis by (simp add: RemoveContainer_def)
  next
    case None
    with Pair assms show ?thesis
      by (auto simp: RemoveContainer_def call_def print_def Let_def split: option.splits)
  qed
qed

lemma RemoveContainer_success_deleted:
  assumes "RemoveContainer os containerId w = (None, w')"
  shows "map_of (runningContainers w') containerId = None"
proof (cases "map_of (runningContainers w) containerId")
  case None
  with assms show ?thesis by (simp add: RemoveContainer_def)
next
  case (Some c)
  with assms show ?thesis
    by (auto simp: RemoveContainer_def Let_def delete_conv' split: prod.splits option.splits if_splits)
qed

text \<open>
  Claim C5. \<open>RemoveContainer\<close> on an id that is not in the registry fails with
  \<open>NotFound\<close> and changes nothing. On a record whose status is \<open>Running\<close> it runs
  \<open>StopContainer\<close> first: when that fails, the failure is returned and the registry is as
  before, the record still in it; when the removal succeeds, \<open>StopContainer\<close> has
  succeeded, the record deleted is the one of the registry after the stop, where its status
  reads \<open>Stopped\<close> and not \<open>Running\<close>, and the events of the stop come before the
  deletion of the files.
\<close>

theorem Remove_stops_before_delete:
  "(map_of (runningContainers w) containerId = None \<longrightarrow>
      RemoveContainer os containerId w = (Some (NotFound containerId), w)) \<and>
   (\<forall>c e w1. map_of (runningContainers w) containerId = Some c \<and> Status c = StatusRunning \<and>
        StopContainer os containerId w = (Some e, w1) \<longrightarrow>
        RemoveContainer os containerId w = (Some (StopError e), w1) \<and>
        runningContainers w1 = runningContainers w) \<and>
   (\<forall>c w'. map_of (runningContainers w) containerId = Some c \<and> Status c = StatusRunning \<and>
        RemoveContainer os containerId w = (None, w') \<longrightarrow>
        (\<exists>w1 c1 rest.
            StopContainer os containerId w = (None, w1) \<and>
            map_of (runningContainers w1) containerId = Some c1 \<and>
            Status c1 = StatusStopped \<and> Status c1 \<noteq> StatusRunning \<and>
            runningContainers w' = AList.delete containerId (runningContainers w1) \<and>
            trace w' = trace w1 @
              RemoveAll (filepath_Join [DefaultContainerRoot, containerId]) # rest)) \<and>
   (\<forall>w'. RemoveContainer os containerId w = (None, w') \<longrightarrow>
        map_of (runningContainers w') containerId = None)"
proof (intro conjI allI impI)
  assume "map_of (runningContainers w) containerId = None"
  then show "RemoveContainer os containerId w = (Some (NotFound containerId), w)"
    by (rule RemoveContainer_absent)
next
  fix c e w1
  assume h: "map_of (runningContainers w) containerId = Some c \<and> Status c = StatusRunning \<and>
        StopContainer os containerId w = (Some e, w1)"
  then show "RemoveContainer os containerId w = (Some (StopError e), w1)"
    by (simp add: RemoveContainer_stop_fails)
  from h StopContainer_failure_registry show "runningContainers w1 = runningContainers w"
    by blast
next
  fix c w'
  assume h: "map_of (runningContainers w) containerId = Some c \<and> Status c = StatusRunning \<and>
        RemoveContainer os containerId w = (None, w')"
  then obtain w1 rest where s: "StopContainer os containerId w = (None, w1)"
    and d: "runningContainers w' = AList.delete containerId (runningContainers w1)"
    and t: "trace w' = trace w1 @ RemoveAll (filepath_Join [DefaultContainerRoot, containerId]) # rest"
    using RemoveContainer_running_success by blast
  from StopContainer_success_stopped [OF s] obtain c1
    where "map_of (runningContainers w1) containerId = Some c1" "Status c1 = StatusStopped"
    by blast
  with s d t Status_constants_differ
  show "\<exists>w1 c1 rest.
            StopContainer os containerId w = (None, w1) \<and>
            map_of (runningContainers w1) containerId = Some c1 \<and>
            Status c1 = StatusStopped \<and> Status c1 \<noteq> StatusRunning \<and>
            runningContainers w' = AList.delete containerId (runningContainers w1) \<and>
            trace w' = trace w1 @
              RemoveAll (filepath_Join [DefaultContainerRoot, containerId]) # rest"
    by (metis (no_types))
next
  fix w' assume "RemoveContainer os containerId w = (None, w')"
  then show "map_of (runningContainers w') containerId = None"
    by (rule RemoveContainer_success_deleted)
qed

theorem Remove_stops_before_delete_witness:
  "map_of (runningContainers running_world) ''no-such-id'' = None \<and>
   RemoveContainer example_os ''no-such-id'' running_world
     = (Some (NotFound ''no-such-id''), running_world) \<and>
   map_of (runningContainers running_world) example_id = Some running_record \<and>
   Status running_record = StatusRunning \<and>
   StopContainer unkillable_os example_id running_world
     = (Some (KillError (Sys ''operation not permitted'')),
        running_world\<lparr>trace := [FindProcess 4242, SignalTerm 4242,
           Print (WarnSigtermFailed (Sys ''operation not permitted'')), Kill 4242]\<rparr>) \<and>
   RemoveContainer unkillable_os example_id running_world
     = (Some (StopError (KillError (Sys ''operation not permitted''))),
        running_world\<lparr>trace := [FindProcess 4242, SignalTerm 4242,
           Print (WarnSigtermFailed (Sys ''operation not permitted'')), Kill 4242]\<rparr>) \<and>
   RemoveContainer example_os example_id running_world
     = (None, \<lparr>runningContainers = [],
               trace = [FindProcess 4242, SignalTerm 4242,
                        RemoveAll ''/var/lib/godocker/123e4567-e89b-12d3-a456-426614174000'']\<rparr>) \<and>
   (\<exists>w1 c1. StopContainer example_os example_id running_world = (None, w1) \<and>
       map_of (runningContainers w1) example_id = Some c1 \<and> Status c1 = StatusStopped)"
proof -
  have a: "map_of (runningContainers running_world) ''no-such-id'' = None"
    by (simp add: running_world_def example_id_def)
  have b: "map_of (runningContainers running_world) example_id = Some running_record"
    "Status running_record = StatusRunning"
    by (simp_all add: running_world_def running_record_def)
  have c: "StopContainer unkillable_os example_id running_world
     = (Some (KillError (Sys ''operation not permitted'')),
        running_world\<lparr>trace := [FindProcess 4242, SignalTerm 4242,
           Print (WarnSigtermFailed (Sys ''operation not permitted'')), Kill 4242]\<rparr>)"
    by code_simp
  have d: "RemoveContainer example_os example_id running_world
     = (None, \<lparr>runningContainers = [],
               trace = [FindProcess 4242, SignalTerm 4242,
                        RemoveAll ''/var/lib/godocker/123e4567-e89b-12d3-a456-426614174000'']\<rparr>)"
    by code_simp
  from Remove_stops_before_delete [of running_world "''no-such-id''" example_os, THEN conjunct1,
      rule_format, OF a]
  have 1: "RemoveContainer example_os ''no-such-id'' running_world
     = (Some (NotFound ''no-such-id''), running_world)" .
  from Remove_stops_before_delete [of running_world example_id unkillable_os,
      THEN conjunct2, THEN conjunct1, rule_format, OF conjI [OF b(1) conjI [OF b(2) c]]]
  have 2: "RemoveContainer unkillable_os example_id running_world
     = (Some (StopError (KillError (Sys ''operation not permitted''))),
        running_world\<lparr>trace := [FindProcess 4242, SignalTerm 4242,
           Print (WarnSigtermFailed (Sys ''operation not permitted'')), Kill 4242]\<rparr>)"
    by simp
  from Remove_stops_before_delete [of running_world example_id example_os,
      THEN conjunct2, THEN conjunct2, THEN conjunct1, rule_format,
      OF conjI [OF b(1) conjI [OF b(2) d]]]
  have 3: "\<exists>w1 c1. StopContainer example_os example_id running_world = (None, w1) \<and>
       map_of (runningContainers w1) example_id = Some c1 \<and> Status c1 = StatusStopped"
    by blast
  from a b c d 1 2 3 show ?thesis by (intro conjI)
qed

subsection \<open>Waiting for a container\<close>

text \<open>
  Claim C1 as stated fails: \<open>WaitContainer\<close> returns only an error. For a process that
  exits with code 3 and for one that exits with code 7 the caller gets the same \<open>nil\<close>.
\<close>

theorem Wait_returns_no_exit_code_counterexample:
  "wait_code example_os [FindProcess 4242] 4242 = Inr 3 \<and>
   wait_code exit7_os [FindProcess 4242] 4242 = Inr 7 \<and>
   fst (WaitContainer example_os example_id running_world) = None \<and>
   fst (WaitContainer exit7_os example_id running_world) = None"
  by code_simp

text \<open>
  Claim C1, amended. For a record whose status is \<open>Running\<close>, when the process is found
  and \<open>process.Wait\<close> reports its exit code, \<open>WaitContainer\<close> waits for the process,
  sets the status of the record to \<open>Stopped\<close>, prints the exit code that was reported and
  returns \<open>nil\<close>. (Ids in the registry have 36 bytes; the printed line shows the first
  12.)
\<close>

theorem Wait_prints_exit_code:
  assumes "map_of (runningContainers w) containerId = Some c"
    and "Status c = StatusRunning"
    and "sys_err os (trace w) (FindProcess (Pid c)) = None"
    and "wait_code os (trace w @ [FindProcess (Pid c)]) (Pid c) = Inr code"
    and "12 \<le> length containerId"
  shows "WaitContainer os containerId w =
           (None,
            \<lparr>runningContainers =
               AList.update containerId (c\<lparr>Status := StatusStopped\<rparr>) (runningContainers w),
             trace = trace w @ [FindProcess (Pid c), Wait (Pid c),
                                Print (LogExited (take 12 containerId) code)]\<rparr>)"
  using assms Status_constants_differ
  by (simp add: WaitContainer_def call_def print_def Let_def)

theorem Wait_prints_exit_code_witness:
  "map_of (runningContainers running_world) example_id = Some running_record \<and>
   Status running_record = StatusRunning \<and>
   sys_err exit7_os (trace running_world) (FindProcess (Pid running_record)) = None \<and>
   wait_code exit7_os (trace running_world @ [FindProcess (Pid running_record)])
     (Pid running_record) = Inr 7 \<and>
   12 \<le> length example_id \<and>
   WaitContainer exit7_os example_id running_world =
     (None,
      \<lparr>runningContainers = [(example_id, running_record\<lparr>Status := StatusStopped\<rparr>)],
       trace = [FindProcess 4242, Wait 4242, Print (LogExited ''123e4567-e89'' 7)]\<rparr>)"
proof -
  have a: "map_of (runningContainers running_world) example_id = Some running_record"
    "Status running_record = StatusRunning"
    "sys_err exit7_os (trace running_world) (FindProcess (Pid running_record)) = None"
    "wait_code exit7_os (trace running_world @ [FindProcess (Pid running_record)])
       (Pid running_record) = Inr 7"
    "12 \<le> length example_id"
    by (simp_all add: running_world_def running_record_def exit7_os_def example_os_def
        example_id_def)
  from Wait_prints_exit_code [OF a] a show ?thesis
    by (simp add: running_world_def running_record_def example_id_def)
qed

subsection \<open>Creating a container\<close>

lemma length_hex_digits: "length (hex_digits k n) = k"
  by (induction k arbitrary: n) simp_all

lemma length_uuid_String: "length (uuid_String u) = 36"
  by (simp add: uuid_String_def Let_def length_hex_digits)

lemma length_generateContainerId: "length (generateContainerId os tr) = 36"
  by (simp add: generateContainerId_def length_uuid_String)

lemma steps_wrapped_no_panic:
  assumes "\<And>f. f \<in> set fs \<Longrightarrow> \<exists>ctx g. f = wrap ctx g \<and> (\<forall>e. ctx e \<noteq> Panic)"
  shows "steps fs tr \<noteq> (Some Panic, tr')"
proof (rule steps_never)
  fix f t t' assume "f \<in> set fs"
  from assms [OF this] obtain ctx g where "f = wrap ctx g" "\<forall>e. ctx e \<noteq> Panic" by blast
  then show "f t \<noteq> (Some Panic, t')" by (metis wrap_error)
qed

lemma SetupNetwork_no_panic:
  assumes "8 \<le> length containerID"
  shows "SetupNetwork os netMode containerID pid tr \<noteq> (Inl Panic, tr')"
proof -
  have "steps
          [wrap VethPairError (createVethPair os v p),
           wrap NetnsError (setupContainerNetns os v p pid ip),
           wrap BridgeConnectError (connectVethToBridge os v DefaultBridge),
           wrap NATError (setupNAT os DefaultBridge DefaultSubnet)] t \<noteq> (Some Panic, t')"
    for v p ip t t'
    by (rule steps_wrapped_no_panic) auto
  then show ?thesis
    using assms
    by (auto simp: SetupNetwork_def Let_def simp del: steps.simps
        split: prod.splits option.splits)
qed


lemma NewContainer_duplicate:
  "Config.Name cfg \<noteq> [] \<Longrightarrow> name_in_use (runningContainers w) (Config.Name cfg) \<Longrightarrow>
     NewContainer os cfg w = (Inl (DuplicateName (Config.Name cfg)), w)"
  by (simp add: NewContainer_def Let_def)

lemma NewContainer_rootfs_fails:
  assumes "\<not> (Config.Name cfg \<noteq> [] \<and> name_in_use (runningContainers w) (Config.Name cfg))"
    and "prepareRootfs os (generateContainerId os (trace w)) (Config.Image cfg) (trace w)
           = (Inl e, tr1)"
  shows "NewContainer os cfg w = (Inl (RootfsPreparationError e), w\<lparr>trace := tr1\<rparr>)"
  using assms by (auto simp: NewContainer_def Let_def)

lemma startContainer_succeeds:
  "\<forall>ev. start_pid os tr ev = Inr pid \<Longrightarrow>
     \<exists>tr'. startContainer os c root tr = (Inr pid, tr')"
  by (simp add: startContainer_def Let_def)

lemma NewContainer_start_fails:
  assumes "\<not> (Config.Name cfg \<noteq> [] \<and> name_in_use (runningContainers w) (Config.Name cfg))"
    and "prepareRootfs os (generateContainerId os (trace w)) (Config.Image cfg) (trace w)
           = (Inr root, tr1)"
    and "\<forall>ev. start_pid os tr1 ev = Inl msg"
  shows "\<exists>w'. NewContainer os cfg w = (Inl (ProcessStartError (Sys msg)), w') \<and>
              runningContainers w' = runningContainers w"
  using assms
  by (auto simp: NewContainer_def Let_def startContainer_def)

lemma SetupNetwork_fst_no_panic:
  "fst (SetupNetwork os netMode (generateContainerId os' tr0) pid tr) \<noteq> Inl Panic"
proof
  assume p: "fst (SetupNetwork os netMode (generateContainerId os' tr0) pid tr) = Inl Panic"
  have "8 \<le> length (generateContainerId os' tr0)"
    by (simp add: length_generateContainerId)
  from SetupNetwork_no_panic [OF this, of os netMode pid tr
      "snd (SetupNetwork os netMode (generateContainerId os' tr0) pid tr)"] p
  show False by (metis prod.collapse)
qed

lemma NewContainer_start_error:
  assumes "\<not> (Config.Name cfg \<noteq> [] \<and> name_in_use (runningContainers w) (Config.Name cfg))"
    and "prepareRootfs os (generateContainerId os (trace w)) (Config.Image cfg) (trace w)
           = (Inr root, tr1)"
    and "startContainer os (new_record os cfg (generateContainerId os (trace w)) tr1 0) root tr1
           = (Inl e, tr2)"
  shows "NewContainer os cfg w = (Inl (ProcessStartError e), w\<lparr>trace := tr2\<rparr>)"
proof (cases "Config.Name cfg = []")
  case True
  with assms show ?thesis
    unfolding NewContainer_def Let_def by (simp add: new_record_def)
next
  case False
  with assms show ?thesis
    unfolding NewContainer_def Let_def by (simp add: new_record_def)
qed

lemma NewContainer_created:
  assumes nd: "\<not> (Config.Name cfg \<noteq> [] \<and> name_in_use (runningContainers w) (Config.Name cfg))"
    and pr: "prepareRootfs os (generateContainerId os (trace w)) (Config.Image cfg) (trace w)
           = (Inr root, tr1)"
    and st: "startContainer os (new_record os cfg (generateContainerId os (trace w)) tr1 0) root tr1
           = (Inr pid, tr2)"
  shows "fst (NewContainer os cfg w) = Inr (generateContainerId os (trace w)) \<and>
         runningContainers (snd (NewContainer os cfg w)) =
           AList.update (generateContainerId os (trace w))
             (new_record os cfg (generateContainerId os (trace w)) tr1 pid)
             (runningContainers w)"
proof -
  obtain rerr tr3 where a: "ApplyResourceLimits os pid (Resource cfg) tr2 = (rerr, tr3)"
    by (cases "ApplyResourceLimits os pid (Resource cfg) tr2")
  obtain nr tr5 where n: "SetupNetwork os (Network cfg) (generateContainerId os (trace w)) pid
      (case rerr of None \<Rightarrow> tr3 | Some err \<Rightarrow> print (WarnResourceLimits err) tr3) = (nr, tr5)"
    by (cases "SetupNetwork os (Network cfg) (generateContainerId os (trace w)) pid
      (case rerr of None \<Rightarrow> tr3 | Some err \<Rightarrow> print (WarnResourceLimits err) tr3)")
  have np: "nr \<noteq> Inl Panic"
    using SetupNetwork_fst_no_panic [of os "Network cfg" os "trace w" pid
        "case rerr of None \<Rightarrow> tr3 | Some err \<Rightarrow> print (WarnResourceLimits err) tr3"] n
    by simp
  show ?thesis
  proof (cases "Config.Name cfg = []")
    case True
    with pr st a n np show ?thesis
      unfolding NewContainer_def Let_def
      by (simp add: new_record_def) (auto split: sum.splits error.splits)
  next
    case False
    with nd pr st a n np show ?thesis
      unfolding NewContainer_def Let_def
      by (simp add: new_record_def) (auto split: sum.splits error.splits)
  qed
qed

lemma NewContainer_cases:
  assumes run: "NewContainer os cfg w = (r, w')"
  obtains
    (duplicate) "Config.Name cfg \<noteq> []" and "name_in_use (runningContainers w) (Config.Name cfg)"
      and "r = Inl (DuplicateName (Config.Name cfg))" and "w' = w"
  | (rootfs) e tr1 where
      "\<not> (Config.Name cfg \<noteq> [] \<and> name_in_use (runningContainers w) (Config.Name cfg))"
      and "prepareRootfs os (generateContainerId os (trace w)) (Config.Image cfg) (trace w)
             = (Inl e, tr1)"
      and "r = Inl (RootfsPreparationError e)" and "w' = w\<lparr>trace := tr1\<rparr>"
  | (start) e root tr1 tr2 where
      "\<not> (Config.Name cfg \<noteq> [] \<and> name_in_use (runningContainers w) (Config.Name cfg))"
      and "prepareRootfs os (generateContainerId os (trace w)) (Config.Image cfg) (trace w)
             = (Inr root, tr1)"
      and "startContainer os (new_record os cfg (generateContainerId os (trace w)) tr1 0) root tr1
             = (Inl e, tr2)"
      and "r = Inl (ProcessStartError e)" and "w' = w\<lparr>trace := tr2\<rparr>"
  | (created) root tr1 pid tr2 where
      "\<not> (Config.Name cfg \<noteq> [] \<and> name_in_use (runningContainers w) (Config.Name cfg))"
      and "prepareRootfs os (generateContainerId os (trace w)) (Config.Image cfg) (trace w)
             = (Inr root, tr1)"
      and "startContainer os (new_record os cfg (generateContainerId os (trace w)) tr1 0) root tr1
             = (Inr pid, tr2)"
      and "r = Inr (generateContainerId os (trace w))"
      and "runningContainers w' =
             AList.update (generateContainerId os (trace w))
               (new_record os cfg (generateContainerId os (trace w)) tr1 pid)
               (runningContainers w)"
proof (cases "Config.Name cfg \<noteq> [] \<and> name_in_use (runningContainers w) (Config.Name cfg)")
  case True
  then have "NewContainer os cfg w = (Inl (DuplicateName (Config.Name cfg)), w)"
    by (simp add: NewContainer_duplicate)
  with run have "r = Inl (DuplicateName (Config.Name cfg))" "w' = w" by simp_all
  with True duplicate show ?thesis by blast
next
  case nd: False
  obtain pr tr1 where p: "prepareRootfs os (generateContainerId os (trace w)) (Config.Image cfg)
      (trace w) = (pr, tr1)"
    by (cases "prepareRootfs os (generateContainerId os (trace w)) (Config.Image cfg) (trace w)")
  show ?thesis
  proof (cases pr)
    case (Inl e)
    with nd p have "NewContainer os cfg w = (Inl (RootfsPreparationError e), w\<lparr>trace := tr1\<rparr>)"
      by (simp add: NewContainer_rootfs_fails)
    with run have "r = Inl (RootfsPreparationError e)" "w' = w\<lparr>trace := tr1\<rparr>" by simp_all
    with nd p Inl rootfs show ?thesis by blast
  next
    case root: (Inr root)
    obtain sr tr2 where s: "startContainer os
        (new_record os cfg (generateContainerId os (trace w)) tr1 0) root tr1 = (sr, tr2)"
      by (cases "startContainer os
        (new_record os cfg (generateContainerId os (trace w)) tr1 0) root tr1")
    show ?thesis
    proof (cases sr)
      case (Inl e)
      with nd p root s
      have "NewContainer os cfg w = (Inl (ProcessStartError e), w\<lparr>trace := tr2\<rparr>)"
        by (simp add: NewContainer_start_error)
      with run have "r = Inl (ProcessStartError e)" "w' = w\<lparr>trace := tr2\<rparr>" by simp_all
      with nd p root s Inl start show ?thesis by blast
    next
      case (Inr pid)
      with nd p root s NewContainer_created [of cfg w os root tr1 pid tr2] run
      have "r = Inr (generateContainerId os (trace w))"
        "runningContainers w' =
              AList.update (generateContainerId os (trace w))
                (new_record os cfg (generateContainerId os (trace w)) tr1 pid)
                (runningContainers w)"
        by simp_all
      with nd p root s Inr created show ?thesis by blast
    qed
  qed
qed

lemma NewContainer_error_registry:
  assumes "NewContainer os cfg w = (Inl e, w')"
  shows "runningContainers w' = runningContainers w"
  using assms by (cases rule: NewContainer_cases) simp_all

text \<open>
  Claim C2. When the preparation of the root filesystem fails, \<open>NewContainer\<close> returns
  \<open>RootfsPreparationError\<close>, and when the spawn of the isolated process fails, it returns
  \<open>ProcessStartError\<close>; whenever \<open>NewContainer\<close> returns an error, the registry is
  exactly the one before the call: no record was inserted.
\<close>

theorem NewContainer_failure_leaves_registry:
  "(\<forall>e tr1.
      \<not> (Config.Name cfg \<noteq> [] \<and> name_in_use (runningContainers w) (Config.Name cfg)) \<and>
      prepareRootfs os (generateContainerId os (trace w)) (Config.Image cfg) (trace w)
        = (Inl e, tr1) \<longrightarrow>
      NewContainer os cfg w = (Inl (RootfsPreparationError e), w\<lparr>trace := tr1\<rparr>)) \<and>
   (\<forall>root tr1 msg.
      \<not> (Config.Name cfg \<noteq> [] \<and> name_in_use (runningContainers w) (Config.Name cfg)) \<and>
      prepareRootfs os (generateContainerId os (trace w)) (Config.Image cfg) (trace w)
        = (Inr root, tr1) \<and>
      (\<forall>ev. start_pid os tr1 ev = Inl msg) \<longrightarrow>
      (\<exists>w'. NewContainer os cfg w = (Inl (ProcessStartError (Sys msg)), w') \<and>
            runningContainers w' = runningContainers w)) \<and>
   (\<forall>e w'. NewContainer os cfg w = (Inl e, w') \<longrightarrow>
      runningContainers w' = runningContainers w)"
proof (intro conjI allI impI)
  fix e tr1
  assume "\<not> (Config.Name cfg \<noteq> [] \<and> name_in_use (runningContainers w) (Config.Name cfg)) \<and>
      prepareRootfs os (generateContainerId os (trace w)) (Config.Image cfg) (trace w)
        = (Inl e, tr1)"
  then show "NewContainer os cfg w = (Inl (RootfsPreparationError e), w\<lparr>trace := tr1\<rparr>)"
    using NewContainer_rootfs_fails [of cfg w os e tr1] by blast
next
  fix root tr1 msg
  assume "\<not> (Config.Name cfg \<noteq> [] \<and> name_in_use (runningContainers w) (Config.Name cfg)) \<and>
      prepareRootfs os (generateContainerId os (trace w)) (Config.Image cfg) (trace w)
        = (Inr root, tr1) \<and>
      (\<forall>ev. start_pid os tr1 ev = Inl msg)"
  then show "\<exists>w'. NewContainer os cfg w = (Inl (ProcessStartError (Sys msg)), w') \<and>
            runningContainers w' = runningContainers w"
    using NewContainer_start_fails [of cfg w os root tr1 msg] by blast
next
  fix e w' assume "NewContainer os cfg w = (Inl e, w')"
  then show "runningContainers w' = runningContainers w"
    by (rule NewContainer_error_registry)
qed

theorem NewContainer_failure_leaves_registry_witness:
  "NewContainer no_disk_os db_config running_world
     = (Inl (RootfsPreparationError (Sys ''no space left on device'')),
        running_world\<lparr>trace :=
          [MkdirAll ''/var/lib/godocker/00000000-0000-0000-0000-0000000003e8'' 493]\<rparr>) \<and>
   fst (NewContainer no_spawn_os db_config running_world)
     = Inl (ProcessStartError (Sys ''operation not permitted'')) \<and>
   runningContainers (snd (NewContainer no_spawn_os db_config running_world))
     = runningContainers running_world \<and>
   runningContainers running_world = [(example_id, running_record)]"
proof -
  have nd: "\<not> (Config.Name db_config \<noteq> [] \<and>
               name_in_use (runningContainers running_world) (Config.Name db_config))"
    by code_simp
  have p: "prepareRootfs no_disk_os (generateContainerId no_disk_os (trace running_world))
             (Config.Image db_config) (trace running_world)
           = (Inl (Sys ''no space left on device''),
              [MkdirAll ''/var/lib/godocker/00000000-0000-0000-0000-0000000003e8'' 493])"
    by code_simp
  have s: "fst (NewContainer no_spawn_os db_config running_world)
             = Inl (ProcessStartError (Sys ''operation not permitted''))"
    by code_simp
  then have s': "NewContainer no_spawn_os db_config running_world
             = (Inl (ProcessStartError (Sys ''operation not permitted'')),
                snd (NewContainer no_spawn_os db_config running_world))"
    by (metis prod.collapse)
  from NewContainer_failure_leaves_registry [of db_config running_world no_disk_os,
      THEN conjunct1, rule_format, OF conjI [OF nd p]]
    NewContainer_failure_leaves_registry [of db_config running_world no_spawn_os,
      THEN conjunct2, THEN conjunct2, rule_format, OF s'] s
  show ?thesis by (simp add: running_world_def)
qed

text \<open>
  Claim C6. When the name is free, the root filesystem is prepared and the spawn succeeds
  with process id \<open>pid\<close>, \<open>NewContainer\<close> returns the new container id, and the
  registry holds under that id the new record with status \<open>Running\<close> and that process
  id, all other entries as before. This holds for every operating system, so also when the
  resource limits or the network setup fail afterwards: those failures are printed.
\<close>

theorem NewContainer_created_despite_late_failures:
  assumes "\<not> (Config.Name cfg \<noteq> [] \<and> name_in_use (runningContainers w) (Config.Name cfg))"
    and "prepareRootfs os (generateContainerId os (trace w)) (Config.Image cfg) (trace w)
           = (Inr root, tr1)"
    and "\<forall>ev. start_pid os tr1 ev = Inr pid"
  shows "\<exists>w' c. NewContainer os cfg w = (Inr (generateContainerId os (trace w)), w') \<and>
           map_of (runningContainers w') (generateContainerId os (trace w)) = Some c \<and>
           c = new_record os cfg (generateContainerId os (trace w)) tr1 pid \<and>
           ID c = generateContainerId os (trace w) \<and>
           Status c = StatusRunning \<and>
           Pid c = pid \<and>
           (\<forall>k. k \<noteq> generateContainerId os (trace w) \<longrightarrow>
                map_of (runningContainers w') k = map_of (runningContainers w) k)"
proof -
  from assms(3) obtain tr2
    where "startContainer os (new_record os cfg (generateContainerId os (trace w)) tr1 0) root tr1
             = (Inr pid, tr2)"
    using startContainer_succeeds by blast
  from NewContainer_created [OF assms(1,2) this]
  have "NewContainer os cfg w
          = (Inr (generateContainerId os (trace w)), snd (NewContainer os cfg w))"
    and "runningContainers (snd (NewContainer os cfg w)) =
           AList.update (generateContainerId os (trace w))
             (new_record os cfg (generateContainerId os (trace w)) tr1 pid)
             (runningContainers w)"
    by (metis prod.collapse, simp)
  then show ?thesis
    by (intro exI [of _ "snd (NewContainer os cfg w)"]
        exI [of _ "new_record os cfg (generateContainerId os (trace w)) tr1 pid"])
      (simp add: update_conv' new_record_def)
qed

theorem NewContainer_created_despite_late_failures_witness:
  "fst (NewContainer example_os db_config running_world)
     = Inr ''00000000-0000-0000-0000-0000000003e8'' \<and>
   (\<exists>c. map_of (runningContainers (snd (NewContainer example_os db_config running_world)))
          ''00000000-0000-0000-0000-0000000003e8'' = Some c \<and>
        Status c = StatusRunning \<and> Pid c = 4242) \<and>
   map_of (runningContainers (snd (NewContainer example_os db_config running_world))) example_id
     = Some running_record \<and>
   Print (WarnResourceLimits (MemoryLimitError (InvalidMemorySpec ''lots'')))
     \<in> set (trace (snd (NewContainer example_os db_config running_world))) \<and>
   Print (WarnNetwork (UnsupportedMode ''overlay''))
     \<in> set (trace (snd (NewContainer example_os db_config running_world)))"
proof -
  have nd: "\<not> (Config.Name db_config \<noteq> [] \<and>
               name_in_use (runningContainers running_world) (Config.Name db_config))"
    by code_simp
  have p: "prepareRootfs example_os (generateContainerId example_os (trace running_world))
             (Config.Image db_config) (trace running_world)
           = (Inr ''/var/lib/godocker/00000000-0000-0000-0000-0000000003e8'',
              [MkdirAll ''/var/lib/godocker/00000000-0000-0000-0000-0000000003e8'' 493,
               Print (LogPreparingRootfs
                        ''/var/lib/godocker/00000000-0000-0000-0000-0000000003e8'' ''alpine''),
               WriteFile ''/var/lib/godocker/00000000-0000-0000-0000-0000000003e8/.rootfs_ready''
                 ''alpine'' 420])"
    by code_simp
  have st: "\<forall>ev. start_pid example_os
              [MkdirAll ''/var/lib/godocker/00000000-0000-0000-0000-0000000003e8'' 493,
               Print (LogPreparingRootfs
                        ''/var/lib/godocker/00000000-0000-0000-0000-0000000003e8'' ''alpine''),
               WriteFile ''/var/lib/godocker/00000000-0000-0000-0000-0000000003e8/.rootfs_ready''
                 ''alpine'' 420] ev = Inr 4242"
    by (simp add: example_os_def)
  have cid: "generateContainerId example_os (trace running_world)
               = ''00000000-0000-0000-0000-0000000003e8''"
    by code_simp
  have old: "map_of (runningContainers running_world) example_id = Some running_record"
    "example_id \<noteq> ''00000000-0000-0000-0000-0000000003e8''"
    by (simp_all add: running_world_def example_id_def)
  have logs:
    "Print (WarnResourceLimits (MemoryLimitError (InvalidMemorySpec ''lots'')))
       \<in> set (trace (snd (NewContainer example_os db_config running_world)))"
    "Print (WarnNetwork (UnsupportedMode ''overlay''))
       \<in> set (trace (snd (NewContainer example_os db_config running_world)))"
    by code_simp+
  from NewContainer_created_despite_late_failures [OF nd p st] obtain w' c
    where "NewContainer example_os db_config running_world
             = (Inr (generateContainerId example_os (trace running_world)), w')"
      and "map_of (runningContainers w') (generateContainerId example_os (trace running_world))
             = Some c"
      and "Status c = StatusRunning" and "Pid c = 4242"
      and "\<forall>k. k \<noteq> generateContainerId example_os (trace running_world) \<longrightarrow>
             map_of (runningContainers w') k = map_of (runningContainers running_world) k"
    by blast
  with cid old logs show ?thesis by auto
qed

subsection \<open>Container names\<close>

lemma name_in_use_set:
  "name_in_use reg n \<longleftrightarrow> (\<exists>(k, c) \<in> set reg. ContainerInfo.Name c = n)"
  by (auto simp: name_in_use_def list_ex_iff)

lemma name_in_use_map:
  assumes "wf_registry reg"
  shows "name_in_use reg n \<longleftrightarrow> (\<exists>k c. map_of reg k = Some c \<and> ContainerInfo.Name c = n)"
  using assms by (auto simp: name_in_use_set wf_registry_def)

lemma set_update_subset: "set (AList.update k v al) \<subseteq> insert (k, v) (set al)"
  by (induction al) (auto simp: AList.update.simps)

lemma name_in_use_update:
  "name_in_use (AList.update k v reg) n \<Longrightarrow> name_in_use reg n \<or> ContainerInfo.Name v = n"
  using set_update_subset [of k v reg] by (auto simp: name_in_use_set)

lemma NewContainer_names:
  assumes "NewContainer os cfg w = (r, w')" and "Config.Name cfg \<noteq> []"
    and "name_in_use (runningContainers w') n"
  shows "name_in_use (runningContainers w) n \<or> n = Config.Name cfg"
  using assms
proof (cases rule: NewContainer_cases)
  case (created root tr1 pid tr2)
  with assms(2,3) name_in_use_update show ?thesis
    by (fastforce simp: new_record_def)
qed simp_all

lemma NewContainer_wf:
  assumes "NewContainer os cfg w = (r, w')" and "wf_registry (runningContainers w)"
  shows "wf_registry (runningContainers w')"
  using assms
  by (cases rule: NewContainer_cases) (simp_all add: wf_registry_def distinct_update)

text \<open>
  The registry starts empty, and every operation keeps one entry for each id.
\<close>

lemma wf_registry_empty: "wf_registry []"
  by (simp add: wf_registry_def)

lemma StopContainer_wf:
  assumes "StopContainer os containerId w = (r, w')" and "wf_registry (runningContainers w)"
  shows "wf_registry (runningContainers w')"
proof (cases "map_of (runningContainers w) containerId")
  case None
  with assms show ?thesis by (simp add: StopContainer_def)
next
  case (Some c)
  have "runningContainers w' = runningContainers w \<or>
        runningContainers w' =
          AList.update containerId (c\<lparr>Status := StatusStopped\<rparr>) (runningContainers w)"
    using assms(1) Some
    by (auto simp: StopContainer_def Let_def split: if_splits prod.splits option.splits)
  with assms(2) show ?thesis by (auto simp: wf_registry_def distinct_update)
qed

lemma RemoveContainer_wf:
  assumes "RemoveContainer os containerId w = (r, w')" and "wf_registry (runningContainers w)"
  shows "wf_registry (runningContainers w')"
proof (cases "map_of (runningContainers w) containerId")
  case None
  with assms show ?thesis by (simp add: RemoveContainer_def)
next
  case (Some c)
  obtain serr w1 where s: "(if Status c = StatusRunning then StopContainer os containerId w
                             else (None, w)) = (serr, w1)"
    by (cases "if Status c = StatusRunning then StopContainer os containerId w else (None, w)")
  then have wf1: "wf_registry (runningContainers w1)"
    using assms(2) StopContainer_wf by (auto split: if_splits)
  from assms(1) Some s
  have "runningContainers w' = runningContainers w1 \<or>
        runningContainers w' = AList.delete containerId (runningContainers w1)"
    by (auto simp: RemoveContainer_def Let_def split: prod.splits option.splits)
  with wf1 show ?thesis by (auto simp: wf_registry_def distinct_delete)
qed

lemma WaitContainer_wf:
  assumes "WaitContainer os containerId w = (r, w')" and "wf_registry (runningContainers w)"
  shows "wf_registry (runningContainers w')"
proof (cases "map_of (runningContainers w) containerId")
  case None
  with assms show ?thesis by (simp add: WaitContainer_def)
next
  case (Some c)
  have "runningContainers w' = runningContainers w \<or>
        runningContainers w' =
          AList.update containerId (c\<lparr>Status := StatusStopped\<rparr>) (runningContainers w)"
    using assms(1) Some
    by (auto simp: WaitContainer_def Let_def split: if_splits prod.splits option.splits sum.splits)
  with assms(2) show ?thesis by (auto simp: wf_registry_def distinct_update)
qed

lemma NewContainer_duplicate_iff:
  "(\<exists>n. fst (NewContainer os cfg w) = Inl (DuplicateName n)) \<longleftrightarrow>
     Config.Name cfg \<noteq> [] \<and> name_in_use (runningContainers w) (Config.Name cfg)"
proof
  assume "\<exists>n. fst (NewContainer os cfg w) = Inl (DuplicateName n)"
  then obtain n where "NewContainer os cfg w = (Inl (DuplicateName n), snd (NewContainer os cfg w))"
    by (metis prod.collapse)
  then show "Config.Name cfg \<noteq> [] \<and> name_in_use (runningContainers w) (Config.Name cfg)"
    by (cases rule: NewContainer_cases) simp_all
next
  assume "Config.Name cfg \<noteq> [] \<and> name_in_use (runningContainers w) (Config.Name cfg)"
  then show "\<exists>n. fst (NewContainer os cfg w) = Inl (DuplicateName n)"
    by (simp add: NewContainer_duplicate)
qed

lemma create_all_no_duplicate:
  assumes "distinct (map Config.Name cfgs)" and "[] \<notin> set (map Config.Name cfgs)"
    and "\<forall>n \<in> set (map Config.Name cfgs). \<not> name_in_use (runningContainers w) n"
    and "r \<in> set (fst (create_all os cfgs w))"
  shows "r \<noteq> Inl (DuplicateName n)"
  using assms
proof (induction cfgs arbitrary: w)
  case Nil
  then show ?case by simp
next
  case (Cons cfg cfgs)
  obtain r1 w1 where n1: "NewContainer os cfg w = (r1, w1)" by (cases "NewContainer os cfg w")
  obtain rs w2 where rest: "create_all os cfgs w1 = (rs, w2)" by (cases "create_all os cfgs w1")
  from Cons.prems(4) n1 rest have "r = r1 \<or> r \<in> set (fst (create_all os cfgs w1))" by auto
  then show ?case
  proof
    assume "r = r1"
    moreover have "\<not> (\<exists>m. fst (NewContainer os cfg w) = Inl (DuplicateName m))"
      using Cons.prems(3) by (simp add: NewContainer_duplicate_iff)
    ultimately show ?thesis using n1 by auto
  next
    assume tail: "r \<in> set (fst (create_all os cfgs w1))"
    have free: "\<forall>m \<in> set (map Config.Name cfgs). \<not> name_in_use (runningContainers w1) m"
    proof
      fix m assume m: "m \<in> set (map Config.Name cfgs)"
      with Cons.prems(1) have "m \<noteq> Config.Name cfg" by (auto simp: image_iff)
      moreover from m Cons.prems(3) have "\<not> name_in_use (runningContainers w) m" by auto
      moreover from Cons.prems(2) have "Config.Name cfg \<noteq> []" by auto
      ultimately show "\<not> name_in_use (runningContainers w1) m"
        using NewContainer_names [OF n1] by blast
    qed
    from Cons.prems(1,2) have "distinct (map Config.Name cfgs)" "[] \<notin> set (map Config.Name cfgs)"
      by auto
    from Cons.IH [OF this free tail] show ?thesis .
  qed
qed

lemma prepareRootfs_cooperative:
  assumes "\<forall>tr ev. sys_err os tr ev = None"
  shows "\<exists>root tr1. prepareRootfs os cid img tr = (Inr root, tr1)"
  using assms by (simp add: prepareRootfs_def call_def say_def Let_def)

lemma startContainer_cooperative:
  assumes "\<forall>tr ev. \<exists>pid. start_pid os tr ev = Inr pid"
  shows "\<exists>pid tr2. startContainer os c root tr = (Inr pid, tr2)"
proof -
  let ?ev = "Start ''/proc/self/exe'' [''init'']
      ([''PATH=/bin:/usr/bin:/sbin:/usr/sbin'', ''TERM=xterm'', ''CONTAINER_ID='' @ ID c,
        ''CONTAINER_NAME='' @ ContainerInfo.Name c]
       @ [''CONTAINER_CMD='' @ strings_Join (ContainerInfo.Command c) '' '',
          ''CONTAINER_ROOTFS='' @ root])
      setNamespaceFlags (Tty (Config c))"
  from assms obtain pid where "start_pid os tr ?ev = Inr pid" by blast
  then show ?thesis by (simp add: startContainer_def Let_def)
qed

lemma NewContainer_cooperative:
  assumes "\<not> (Config.Name cfg \<noteq> [] \<and> name_in_use (runningContainers w) (Config.Name cfg))"
    and "\<forall>tr ev. sys_err os tr ev = None"
    and "\<forall>tr ev. \<exists>pid. start_pid os tr ev = Inr pid"
  shows "\<exists>cid. fst (NewContainer os cfg w) = Inr cid"
proof -
  from prepareRootfs_cooperative [OF assms(2)] obtain root tr1
    where p: "prepareRootfs os (generateContainerId os (trace w)) (Config.Image cfg) (trace w)
                = (Inr root, tr1)"
    by blast
  from startContainer_cooperative [OF assms(3)] obtain pid tr2
    where "startContainer os (new_record os cfg (generateContainerId os (trace w)) tr1 0) root tr1
             = (Inr pid, tr2)"
    by blast
  from NewContainer_created [OF assms(1) p this] show ?thesis by blast
qed

lemma create_all_cooperative:
  assumes "distinct (map Config.Name cfgs)" and "[] \<notin> set (map Config.Name cfgs)"
    and "\<forall>n \<in> set (map Config.Name cfgs). \<not> name_in_use (runningContainers w) n"
    and "\<forall>tr ev. sys_err os tr ev = None"
    and "\<forall>tr ev. \<exists>pid. start_pid os tr ev = Inr pid"
    and "r \<in> set (fst (create_all os cfgs w))"
  shows "\<exists>cid. r = Inr cid"
  using assms(1,2,3,6)
proof (induction cfgs arbitrary: w)
  case Nil
  then show ?case by simp
next
  case (Cons cfg cfgs)
  obtain r1 w1 where n1: "NewContainer os cfg w = (r1, w1)" by (cases "NewContainer os cfg w")
  obtain rs w2 where rest: "create_all os cfgs w1 = (rs, w2)" by (cases "create_all os cfgs w1")
  from Cons.prems(4) n1 rest have "r = r1 \<or> r \<in> set (fst (create_all os cfgs w1))" by auto
  then show ?case
  proof
    assume "r = r1"
    moreover from Cons.prems(3)
    have "\<not> (Config.Name cfg \<noteq> [] \<and> name_in_use (runningContainers w) (Config.Name cfg))"
      by simp
    from NewContainer_cooperative [OF this assms(4,5)] n1 have "\<exists>cid. r1 = Inr cid" by simp
    ultimately show ?thesis by simp
  next
    assume tail: "r \<in> set (fst (create_all os cfgs w1))"
    have free: "\<forall>m \<in> set (map Config.Name cfgs). \<not> name_in_use (runningContainers w1) m"
    proof
      fix m assume m: "m \<in> set (map Config.Name cfgs)"
      with Cons.prems(1) have "m \<noteq> Config.Name cfg" by (auto simp: image_iff)
      moreover from m Cons.prems(3) have "\<not> name_in_use (runningContainers w) m" by auto
      moreover from Cons.prems(2) have "Config.Name cfg \<noteq> []" by auto
      ultimately show "\<not> name_in_use (runningContainers w1) m"
        using NewContainer_names [OF n1] by blast
    qed
    from Cons.prems(1,2) have "distinct (map Config.Name cfgs)" "[] \<notin> set (map Config.Name cfgs)"
      by auto
    from Cons.IH [OF this free tail] show ?thesis .
  qed
qed

lemma StopContainer_entries:
  assumes "StopContainer os containerId w = (r, w1)"
    and "(k, c) \<in> set (runningContainers w1)" and "k \<noteq> containerId"
  shows "(k, c) \<in> set (runningContainers w)"
proof (cases "map_of (runningContainers w) containerId")
  case None
  with assms show ?thesis by (simp add: StopContainer_def)
next
  case (Some c0)
  have "runningContainers w1 = runningContainers w \<or>
        runningContainers w1 =
          AList.update containerId (c0\<lparr>Status := StatusStopped\<rparr>) (runningContainers w)"
    using assms(1) Some
    by (auto simp: StopContainer_def Let_def split: if_splits prod.splits option.splits)
  with assms(2,3) set_update_subset show ?thesis by fastforce
qed

lemma RemoveContainer_entries:
  assumes "RemoveContainer os containerId w = (None, w')"
    and "(k, c) \<in> set (runningContainers w')"
  shows "k \<noteq> containerId \<and> (k, c) \<in> set (runningContainers w)"
proof (cases "map_of (runningContainers w) containerId")
  case None
  with assms show ?thesis by (simp add: RemoveContainer_def)
next
  case (Some c0)
  obtain serr w1 where s: "(if Status c0 = StatusRunning then StopContainer os containerId w
                             else (None, w)) = (serr, w1)"
    by (cases "if Status c0 = StatusRunning then StopContainer os containerId w else (None, w)")
  with assms(1) Some have d: "runningContainers w' = AList.delete containerId (runningContainers w1)"
    by (auto simp: RemoveContainer_def Let_def split: prod.splits option.splits)
  with assms(2) have k: "k \<noteq> containerId" and m: "(k, c) \<in> set (runningContainers w1)"
    by (auto simp: AList.delete_eq)
  from s m k StopContainer_entries have "(k, c) \<in> set (runningContainers w)"
    by (auto split: if_splits)
  with k show ?thesis by simp
qed

lemma RemoveContainer_frees_name:
  assumes "wf_registry (runningContainers w)"
    and "map_of (runningContainers w) containerId = Some c"
    and "\<forall>k c'. k \<noteq> containerId \<and> map_of (runningContainers w) k = Some c' \<longrightarrow>
           ContainerInfo.Name c' \<noteq> ContainerInfo.Name c"
    and "RemoveContainer os containerId w = (None, w')"
  shows "\<not> name_in_use (runningContainers w') (ContainerInfo.Name c)"
proof
  assume "name_in_use (runningContainers w') (ContainerInfo.Name c)"
  then obtain k c' where in': "(k, c') \<in> set (runningContainers w')"
    and nm: "ContainerInfo.Name c' = ContainerInfo.Name c"
    by (auto simp: name_in_use_set)
  from RemoveContainer_entries [OF assms(4) in']
  have "k \<noteq> containerId" "(k, c') \<in> set (runningContainers w)" by simp_all
  with assms(1) have "k \<noteq> containerId" "map_of (runningContainers w) k = Some c'"
    by (simp_all add: wf_registry_def)
  with assms(3) nm show False by blast
qed

text \<open>
  Claim C3. For a registry with one entry for each id, \<open>NewContainer\<close> fails with
  \<open>DuplicateName\<close> if and only if the requested name is not empty and is the name of a
  record in the registry. In particular, in a sequence of \<open>NewContainer\<close> calls with
  pairwise distinct names, none empty and none in the registry at the start, no call fails
  with \<open>DuplicateName\<close>, and all calls succeed on an operating system where the
  preparation of the root filesystem and the spawn succeed. And after \<open>RemoveContainer\<close>
  has deleted a record whose name no other record carries, a later \<open>NewContainer\<close> with
  that name does not fail with \<open>DuplicateName\<close>.
\<close>

theorem Create_duplicate_name:
  "(wf_registry (runningContainers w) \<longrightarrow>
      ((\<exists>n. fst (NewContainer os cfg w) = Inl (DuplicateName n)) \<longleftrightarrow>
         Config.Name cfg \<noteq> [] \<and>
         (\<exists>k c. map_of (runningContainers w) k = Some c \<and>
                ContainerInfo.Name c = Config.Name cfg))) \<and>
   (\<forall>cfgs.
      wf_registry (runningContainers w) \<and>
      distinct (map Config.Name cfgs) \<and> [] \<notin> set (map Config.Name cfgs) \<and>
      (\<forall>n \<in> set (map Config.Name cfgs).
         \<not> (\<exists>k c. map_of (runningContainers w) k = Some c \<and> ContainerInfo.Name c = n)) \<longrightarrow>
      (\<forall>r \<in> set (fst (create_all os cfgs w)). \<forall>n. r \<noteq> Inl (DuplicateName n)) \<and>
      ((\<forall>tr ev. sys_err os tr ev = None) \<and> (\<forall>tr ev. \<exists>pid. start_pid os tr ev = Inr pid) \<longrightarrow>
         (\<forall>r \<in> set (fst (create_all os cfgs w)). \<exists>cid. r = Inr cid))) \<and>
   (\<forall>containerId c w' os2 cfg2.
      wf_registry (runningContainers w) \<and>
      map_of (runningContainers w) containerId = Some c \<and>
      (\<forall>k c'. k \<noteq> containerId \<and> map_of (runningContainers w) k = Some c' \<longrightarrow>
         ContainerInfo.Name c' \<noteq> ContainerInfo.Name c) \<and>
      RemoveContainer os containerId w = (None, w') \<and>
      Config.Name cfg2 = ContainerInfo.Name c \<longrightarrow>
      (\<forall>n. fst (NewContainer os2 cfg2 w') \<noteq> Inl (DuplicateName n)))"
proof (intro conjI allI impI)
  assume "wf_registry (runningContainers w)"
  then show "(\<exists>n. fst (NewContainer os cfg w) = Inl (DuplicateName n)) \<longleftrightarrow>
         Config.Name cfg \<noteq> [] \<and>
         (\<exists>k c. map_of (runningContainers w) k = Some c \<and>
                ContainerInfo.Name c = Config.Name cfg)"
    by (simp add: NewContainer_duplicate_iff name_in_use_map)
next
  fix cfgs :: "Config list"
  assume h: "wf_registry (runningContainers w) \<and>
      distinct (map Config.Name cfgs) \<and> [] \<notin> set (map Config.Name cfgs) \<and>
      (\<forall>n \<in> set (map Config.Name cfgs).
         \<not> (\<exists>k c. map_of (runningContainers w) k = Some c \<and> ContainerInfo.Name c = n))"
  then have free: "\<forall>n \<in> set (map Config.Name cfgs). \<not> name_in_use (runningContainers w) n"
    using name_in_use_map [of "runningContainers w"] by blast
  from h have d: "distinct (map Config.Name cfgs)" and ne: "[] \<notin> set (map Config.Name cfgs)"
    by simp_all
  from create_all_no_duplicate [OF d ne free]
  show "\<forall>r \<in> set (fst (create_all os cfgs w)). \<forall>n. r \<noteq> Inl (DuplicateName n)"
    by blast
  assume "(\<forall>tr ev. sys_err os tr ev = None) \<and> (\<forall>tr ev. \<exists>pid. start_pid os tr ev = Inr pid)"
  then have a: "\<forall>tr ev. sys_err os tr ev = None" and b: "\<forall>tr ev. \<exists>pid. start_pid os tr ev = Inr pid"
    by simp_all
  from create_all_cooperative [OF d ne free a b]
  show "\<forall>r \<in> set (fst (create_all os cfgs w)). \<exists>cid. r = Inr cid"
    by blast
next
  fix containerId and c :: ContainerInfo and w' and os2 :: os and cfg2 :: Config and n
  assume h: "wf_registry (runningContainers w) \<and>
      map_of (runningContainers w) containerId = Some c \<and>
      (\<forall>k c'. k \<noteq> containerId \<and> map_of (runningContainers w) k = Some c' \<longrightarrow>
         ContainerInfo.Name c' \<noteq> ContainerInfo.Name c) \<and>
      RemoveContainer os containerId w = (None, w') \<and>
      Config.Name cfg2 = ContainerInfo.Name c"
  then have "\<not> name_in_use (runningContainers w') (ContainerInfo.Name c)"
    using RemoveContainer_frees_name [of w containerId c os w'] by blast
  with h have "\<not> (\<exists>n. fst (NewContainer os2 cfg2 w') = Inl (DuplicateName n))"
    by (simp add: NewContainer_duplicate_iff)
  then show "fst (NewContainer os2 cfg2 w') \<noteq> Inl (DuplicateName n)" by blast
qed



theorem Create_duplicate_name_witness:
  "wf_registry (runningContainers running_world) \<and>
   map_of (runningContainers running_world) example_id = Some running_record \<and>
   ContainerInfo.Name running_record = Config.Name example_config \<and>
   fst (NewContainer example_os example_config running_world) = Inl (DuplicateName ''web'') \<and>
   fst (create_all example_os [db_config, cache_config] running_world)
     = [Inr ''00000000-0000-0000-0000-0000000003e8'',
        Inr ''00000000-0000-0000-0000-0000000003ef''] \<and>
   RemoveContainer example_os example_id running_world
     = (None, \<lparr>runningContainers = [],
               trace = [FindProcess 4242, SignalTerm 4242,
                        RemoveAll ''/var/lib/godocker/123e4567-e89b-12d3-a456-426614174000'']\<rparr>) \<and>
   (\<forall>n. fst (NewContainer example_os example_config
              \<lparr>runningContainers = [],
               trace = [FindProcess 4242, SignalTerm 4242,
                        RemoveAll ''/var/lib/godocker/123e4567-e89b-12d3-a456-426614174000'']\<rparr>)
        \<noteq> Inl (DuplicateName n))"
proof -
  have wf: "wf_registry (runningContainers running_world)"
    by (simp add: wf_registry_def running_world_def)
  have rec: "map_of (runningContainers running_world) example_id = Some running_record"
    "ContainerInfo.Name running_record = Config.Name example_config"
    by (simp_all add: running_world_def running_record_def example_config_def)
  have dup: "fst (NewContainer example_os example_config running_world)
               = Inl (DuplicateName ''web'')"
    by code_simp
  have seq: "fst (create_all example_os [db_config, cache_config] running_world)
     = [Inr ''00000000-0000-0000-0000-0000000003e8'',
        Inr ''00000000-0000-0000-0000-0000000003ef'']"
    by code_simp
  have names: "distinct (map Config.Name [db_config, cache_config])"
    "[] \<notin> set (map Config.Name [db_config, cache_config])"
    by (simp_all add: db_config_def cache_config_def example_config_def)
  have free: "\<forall>n \<in> set (map Config.Name [db_config, cache_config]).
         \<not> (\<exists>k c. map_of (runningContainers running_world) k = Some c \<and>
                   ContainerInfo.Name c = n)"
  proof -
    have "\<forall>n \<in> set (map Config.Name [db_config, cache_config]).
            \<not> name_in_use (runningContainers running_world) n"
      by code_simp
    then show ?thesis by (simp only: name_in_use_map [OF wf])
  qed
  have coop: "(\<forall>tr ev. sys_err example_os tr ev = None) \<and>
              (\<forall>tr ev. \<exists>pid. start_pid example_os tr ev = Inr pid)"
    by (simp add: example_os_def)
  have rm: "RemoveContainer example_os example_id running_world
     = (None, \<lparr>runningContainers = [],
               trace = [FindProcess 4242, SignalTerm 4242,
                        RemoveAll ''/var/lib/godocker/123e4567-e89b-12d3-a456-426614174000'']\<rparr>)"
    by code_simp
  have others: "\<forall>k c'. k \<noteq> example_id \<and> map_of (runningContainers running_world) k = Some c' \<longrightarrow>
         ContainerInfo.Name c' \<noteq> ContainerInfo.Name running_record"
    by (simp add: running_world_def)
  note t = Create_duplicate_name [of running_world example_os example_config]
  have "Config.Name example_config \<noteq> []" by (simp add: example_config_def)
  with t [THEN conjunct1, rule_format, OF wf] rec
  have 1: "\<exists>n. fst (NewContainer example_os example_config running_world) = Inl (DuplicateName n)"
    by blast
  from t [THEN conjunct2, THEN conjunct1, rule_format, of "[db_config, cache_config]",
      OF conjI [OF wf conjI [OF names(1) conjI [OF names(2) free]]], THEN conjunct2,
      rule_format, OF coop]
  have 2: "\<forall>r \<in> set (fst (create_all example_os [db_config, cache_config] running_world)).
             \<exists>cid. r = Inr cid"
    by blast
  from t [THEN conjunct2, THEN conjunct2, rule_format,
      OF conjI [OF wf conjI [OF rec(1) conjI [OF others conjI [OF rm rec(2) [symmetric]]]]]]
  have 3: "\<forall>n. fst (NewContainer example_os example_config
              \<lparr>runningContainers = [],
               trace = [FindProcess 4242, SignalTerm 4242,
                        RemoveAll ''/var/lib/godocker/123e4567-e89b-12d3-a456-426614174000'']\<rparr>)
        \<noteq> Inl (DuplicateName n)"
    by blast
  from wf rec dup seq rm 3 show ?thesis by (intro conjI)
qed

end
